theory Spec2Isabelle
  imports Main "HOL-Library.Sublist"
begin

section \<open>The chess engine WebAssembly wrapper\<close>

text \<open>
  The repository holds the class \<open>ChessEngineWASM\<close> in two generations.
  \<^item> The buffer generation (the first class of \<open>src/unnamed/part_000\<close>): strings come
    back from the native side through a scratch region obtained from \<open>_malloc\<close>, the
    native status \<open>0\<close> means success. Its methods keep the source's names here.
  \<^item> The direct-return generation (\<open>src/chess/web/chess_engine_wrapper.js\<close>, and the
    second class of \<open>src/unnamed/part_000\<close>, which differs from it in \<open>loadModule\<close>
    only): the foreign-call adapter returns the decoded string, the native status
    \<open>1\<close> means success. Its methods carry the suffix \<open>_direct\<close>.

  JavaScript numbers that cross the boundary are integers (\<open>cwrap\<close> with the type
  \<open>"number"\<close>) and are modelled as \<open>int\<close>. Strings are lists of characters.
\<close>

subsection \<open>Outcomes and computations that may throw\<close>

text \<open>
  What a \<open>throw\<close> carries, as far as the code looks at it (it only ever reads
  \<open>error.message\<close>): a value whose \<open>message\<close> is a string, as an \<open>Error\<close> object
  has; a value whose \<open>message\<close> is \<open>undefined\<close> (a number, a string, an event); or
  \<open>null\<close> or \<open>undefined\<close>, of which no property can be read.
\<close>

datatype thrown = Err string | NoMessage | Nullish

datatype 'a outcome = Returns 'a | Throws thrown

type_synonym ('a, 's) comp = "'s \<Rightarrow> 'a outcome \<times> 's"

definition ret :: "'a \<Rightarrow> ('a, 's) comp" where
  "ret a s = (Returns a, s)"

definition throw :: "thrown \<Rightarrow> ('a, 's) comp" where
  "throw x s = (Throws x, s)"

definition lift :: "'a outcome \<Rightarrow> ('a, 's) comp" where
  "lift r s = (r, s)"

text \<open>Sequencing of two statements: an exception of the first skips the second.\<close>

definition bindx :: "('a, 's) comp \<Rightarrow> ('a \<Rightarrow> ('b, 's) comp) \<Rightarrow> ('b, 's) comp" where
  "bindx m k s = (case m s of
      (Returns a, s1) \<Rightarrow> k a s1
    | (Throws msg, s1) \<Rightarrow> (Throws msg, s1))"

text \<open>
  \<open>try { body } finally { fin }\<close>: the epilogue always runs; when it throws, its
  exception replaces the outcome of the body.
\<close>

definition try_finally :: "('a, 's) comp \<Rightarrow> (unit, 's) comp \<Rightarrow> ('a, 's) comp" where
  "try_finally body fin s = (case body s of
      (r, s1) \<Rightarrow> (case fin s1 of
          (Throws msg, s2) \<Rightarrow> (Throws msg, s2)
        | (Returns _, s2) \<Rightarrow> (r, s2)))"

text \<open>\<open>try { body } catch (error) { handler }\<close>: the handler is given what was thrown.\<close>

definition try_catch :: "('a, 's) comp \<Rightarrow> (thrown \<Rightarrow> ('a, 's) comp) \<Rightarrow> ('a, 's) comp" where
  "try_catch body handler s = (case body s of
      (Returns a, s1) \<Rightarrow> (Returns a, s1)
    | (Throws error, s1) \<Rightarrow> handler error s1)"

text \<open>
  Reading \<open>error.message\<close>: of \<open>null\<close> and \<open>undefined\<close> it is itself a
  \<open>TypeError\<close>; \<open>None\<close> is the value \<open>undefined\<close>.
\<close>

definition message_of :: "thrown \<Rightarrow> string option outcome" where
  "message_of error = (case error of
      Err m \<Rightarrow> Returns (Some m)
    | NoMessage \<Rightarrow> Returns None
    | Nullish \<Rightarrow> Throws (Err ''Cannot read properties of null or undefined''))"

subsection \<open>The native side\<close>

text \<open>
  The native module is an external collaborator. Its state (linear memory, board,
  search state) is a value of an arbitrary type \<open>'w\<close>; a native function takes the
  state and returns an outcome (it may trap, which JavaScript sees as an exception)
  and the new state. Every invocation of a wrapper is recorded, with its arguments
  and its outcome, in a log that only the model reads.
\<close>

type_synonym ('a, 'w) native = "'w \<Rightarrow> 'a outcome \<times> 'w"

datatype jsval = Num int | Str string | Undefined

datatype event = Call string "jsval list" "jsval outcome"

record 'w native_state =
  world :: 'w
  calls :: "event list"

text \<open>
  Calling the wrapper held in a field of the object: a field that is still \<open>null\<close>
  is not callable (a \<open>TypeError\<close>, before anything native runs).
\<close>

definition invoke ::
  "string \<Rightarrow> jsval list \<Rightarrow> ('a \<Rightarrow> jsval) \<Rightarrow> ('a, 'w) native option \<Rightarrow>
   ('a, 'w native_state) comp" where
  "invoke name args enc f s = (case f of
      None \<Rightarrow> (Throws (Err (''this.'' @ name @ '' is not a function'')), s)
    | Some g \<Rightarrow> (case g (world s) of
          (r, w') \<Rightarrow> (r, s\<lparr>world := w', calls := calls s @ [Call name args (map_outcome enc r)]\<rparr>)))"

subsection \<open>The Emscripten module object\<close>

text \<open>
  What \<open>Module.cwrap(name, ...)\<close> needs from the module: \<open>cwrap_throws name\<close> is
  what is thrown when wrapping that symbol throws (the symbol or \<open>cwrap\<close> itself is missing),
  and the \<open>c_\<close> fields are what the wrappers of the symbols do when called.
\<close>

record 'w em_module =
  cwrap_throws :: "string \<Rightarrow> thrown option"
  c_chess_init :: "(int, 'w) native"
  c_chess_cleanup :: "(unit, 'w) native"
  c_chess_set_position :: "string \<Rightarrow> (int, 'w) native"
  c_chess_make_move :: "string \<Rightarrow> (int, 'w) native"
  c_chess_undo_move :: "(int, 'w) native"
  c_chess_is_checkmate :: "(int, 'w) native"
  c_chess_is_stalemate :: "(int, 'w) native"
  c_chess_is_in_check :: "(int, 'w) native"
  c_chess_evaluate_position :: "(int, 'w) native"

text \<open>
  The buffer generation: the three string-producing symbols take a pointer and a
  capacity and return a status or a count; \<open>m_malloc\<close>, \<open>m_free\<close>, \<open>UTF8ToString\<close>
  and \<open>UTF8ArrayToString\<close> (on \<open>HEAPU8\<close>) are \<open>None\<close> when the module does not
  expose a function of that name.
\<close>

record 'w buf_module = "'w em_module" +
  b_chess_get_fen :: "int \<Rightarrow> int \<Rightarrow> (int, 'w) native"
  b_chess_get_best_move :: "int \<Rightarrow> int \<Rightarrow> int \<Rightarrow> (int, 'w) native"
  b_chess_get_legal_moves :: "int \<Rightarrow> int \<Rightarrow> (int, 'w) native"
  m_malloc :: "(int \<Rightarrow> (int, 'w) native) option"
  m_free :: "(int \<Rightarrow> (unit, 'w) native) option"
  UTF8ToString :: "(int \<Rightarrow> (string, 'w) native) option"
  UTF8ArrayToString :: "(int \<Rightarrow> (string, 'w) native) option"

text \<open>The direct-return generation: the adapter hands back the decoded string.\<close>

record 'w direct_module = "'w em_module" +
  d_chess_get_fen :: "(string, 'w) native"
  d_chess_get_best_move :: "int \<Rightarrow> (string, 'w) native"
  d_chess_get_legal_moves :: "(string, 'w) native"

subsection \<open>The object\<close>

text \<open>
  The fields both generations share. A wrapper field is \<open>None\<close> while it is \<open>null\<close>.
\<close>

record 'w engine =
  isReady :: bool
  isInitialized :: bool
  chess_init :: "(int, 'w) native option"
  chess_cleanup :: "(unit, 'w) native option"
  chess_set_position :: "(string \<Rightarrow> (int, 'w) native) option"
  chess_make_move :: "(string \<Rightarrow> (int, 'w) native) option"
  chess_undo_move :: "(int, 'w) native option"
  chess_is_checkmate :: "(int, 'w) native option"
  chess_is_stalemate :: "(int, 'w) native option"
  chess_is_in_check :: "(int, 'w) native option"
  chess_evaluate_position :: "(int, 'w) native option"

text \<open>
  The buffer generation; the source's fields \<open>_chess_get_best_move\<close>, \<open>_malloc\<close>, ...
  start with an underscore, written \<open>p_\<close> here.
\<close>

record 'w buf_engine = "'w engine" +
  module :: "'w buf_module option"
  p_chess_get_best_move :: "(int \<Rightarrow> int \<Rightarrow> int \<Rightarrow> (int, 'w) native) option"
  p_chess_get_legal_moves :: "(int \<Rightarrow> int \<Rightarrow> (int, 'w) native) option"
  p_chess_get_fen :: "(int \<Rightarrow> int \<Rightarrow> (int, 'w) native) option"
  p_malloc :: "(int \<Rightarrow> (int, 'w) native) option"
  p_free :: "(int \<Rightarrow> (unit, 'w) native) option"
  p_decodeCString :: "(int \<Rightarrow> (string, 'w) native) option"

record 'w direct_engine = "'w engine" +
  module_direct :: "'w direct_module option"
  chess_get_best_move :: "(int \<Rightarrow> (string, 'w) native) option"
  chess_get_legal_moves :: "(string, 'w) native option"
  chess_get_fen :: "(string, 'w) native option"

text \<open>The constructors: nothing loaded, every wrapper \<open>null\<close>.\<close>

definition constructor :: "'w buf_engine" where
  "constructor = \<lparr>isReady = False, isInitialized = False,
     chess_init = None, chess_cleanup = None, chess_set_position = None,
     chess_make_move = None, chess_undo_move = None, chess_is_checkmate = None,
     chess_is_stalemate = None, chess_is_in_check = None, chess_evaluate_position = None,
     module = None, p_chess_get_best_move = None, p_chess_get_legal_moves = None,
     p_chess_get_fen = None, p_malloc = None, p_free = None, p_decodeCString = None\<rparr>"

definition constructor_direct :: "'w direct_engine" where
  "constructor_direct = \<lparr>isReady = False, isInitialized = False,
     chess_init = None, chess_cleanup = None, chess_set_position = None,
     chess_make_move = None, chess_undo_move = None, chess_is_checkmate = None,
     chess_is_stalemate = None, chess_is_in_check = None, chess_evaluate_position = None,
     module_direct = None, chess_get_best_move = None, chess_get_legal_moves = None,
     chess_get_fen = None\<rparr>"

text \<open>The lifecycle state of the specification, read off the two flags.\<close>

datatype engine_state = Unloaded | Loaded_NotInitialized | Initialized

definition state_of :: "('w, 'z) engine_scheme \<Rightarrow> engine_state" where
  "state_of e = (if isInitialized e then Initialized
                 else if isReady e then Loaded_NotInitialized else Unloaded)"

subsection \<open>Lifecycle: \<open>init\<close> and \<open>cleanup\<close>\<close>

text \<open>
  \<open>init\<close> of the buffer generation: a status other than \<open>0\<close> returns \<open>false\<close> and
  assigns nothing. A method that assigns to the object returns the object too.
\<close>

definition init ::
  "'w buf_engine \<Rightarrow> 'w native_state \<Rightarrow> bool outcome \<times> 'w buf_engine \<times> 'w native_state" where
  "init e s =
     (if \<not> isReady e then (Throws (Err ''WASM module not loaded yet''), e, s)
      else (case invoke ''chess_init'' [] Num (chess_init e) s of
          (Throws msg, s1) \<Rightarrow> (Throws msg, e, s1)
        | (Returns result, s1) \<Rightarrow>
            if result \<noteq> 0 then (Returns False, e, s1)
            else (Returns True, e\<lparr>isInitialized := True\<rparr>, s1)))"

text \<open>
  \<open>init\<close> of the direct-return generation: \<open>isInitialized\<close> is assigned the
  comparison of the status with \<open>1\<close>, whatever it held.
\<close>

definition init_direct ::
  "'w direct_engine \<Rightarrow> 'w native_state \<Rightarrow>
   bool outcome \<times> 'w direct_engine \<times> 'w native_state" where
  "init_direct e s =
     (if \<not> isReady e then (Throws (Err ''WASM module not loaded yet''), e, s)
      else (case invoke ''chess_init'' [] Num (chess_init e) s of
          (Throws msg, s1) \<Rightarrow> (Throws msg, e, s1)
        | (Returns result, s1) \<Rightarrow>
            (Returns (result = 1), e\<lparr>isInitialized := (result = 1)\<rparr>, s1)))"

text \<open>\<open>cleanup\<close> is the same text in both generations.\<close>

definition cleanup ::
  "('w, 'z) engine_scheme \<Rightarrow> 'w native_state \<Rightarrow>
   unit outcome \<times> ('w, 'z) engine_scheme \<times> 'w native_state" where
  "cleanup e s =
     (if isInitialized e \<and> chess_cleanup e \<noteq> None then
        (case invoke ''chess_cleanup'' [] (\<lambda>_. Undefined) (chess_cleanup e) s of
            (Throws msg, s1) \<Rightarrow> (Throws msg, e, s1)
          | (Returns _, s1) \<Rightarrow> (Returns (), e\<lparr>isInitialized := False\<rparr>, s1))
      else (Returns (), e, s))"

subsection \<open>Call surface shared by both generations\<close>

definition isCheckmate :: "('w, 'z) engine_scheme \<Rightarrow> (bool, 'w native_state) comp" where
  "isCheckmate e =
     (if \<not> isInitialized e then throw (Err ''Engine not initialized'')
      else bindx (invoke ''chess_is_checkmate'' [] Num (chess_is_checkmate e))
             (\<lambda>r. ret (r = 1)))"

definition isStalemate :: "('w, 'z) engine_scheme \<Rightarrow> (bool, 'w native_state) comp" where
  "isStalemate e =
     (if \<not> isInitialized e then throw (Err ''Engine not initialized'')
      else bindx (invoke ''chess_is_stalemate'' [] Num (chess_is_stalemate e))
             (\<lambda>r. ret (r = 1)))"

definition isInCheck :: "('w, 'z) engine_scheme \<Rightarrow> (bool, 'w native_state) comp" where
  "isInCheck e =
     (if \<not> isInitialized e then throw (Err ''Engine not initialized'')
      else bindx (invoke ''chess_is_in_check'' [] Num (chess_is_in_check e))
             (\<lambda>r. ret (r = 1)))"

definition evaluatePosition :: "('w, 'z) engine_scheme \<Rightarrow> (int, 'w native_state) comp" where
  "evaluatePosition e =
     (if \<not> isInitialized e then throw (Err ''Engine not initialized'')
      else invoke ''chess_evaluate_position'' [] Num (chess_evaluate_position e))"

text \<open>A parameter with the default \<open>4\<close>: \<open>None\<close> is the omitted argument.\<close>

definition depth_or_default :: "int option \<Rightarrow> int" where
  "depth_or_default depth = (case depth of None \<Rightarrow> 4 | Some d \<Rightarrow> d)"

subsection \<open>Call surface of the buffer generation\<close>

definition setPosition :: "'w buf_engine \<Rightarrow> string \<Rightarrow> (bool, 'w native_state) comp" where
  "setPosition e fen =
     (if \<not> isInitialized e then throw (Err ''Engine not initialized'')
      else bindx (invoke ''chess_set_position'' [Str fen] Num
                    (map_option (\<lambda>f. f fen) (chess_set_position e)))
             (\<lambda>r. ret (r = 0)))"

definition makeMove :: "'w buf_engine \<Rightarrow> string \<Rightarrow> (bool, 'w native_state) comp" where
  "makeMove e move =
     (if \<not> isInitialized e then throw (Err ''Engine not initialized'')
      else bindx (invoke ''chess_make_move'' [Str move] Num
                    (map_option (\<lambda>f. f move) (chess_make_move e)))
             (\<lambda>r. ret (r = 0)))"

definition undoMove :: "'w buf_engine \<Rightarrow> (bool, 'w native_state) comp" where
  "undoMove e =
     (if \<not> isInitialized e then throw (Err ''Engine not initialized'')
      else bindx (invoke ''chess_undo_move'' [] Num (chess_undo_move e))
             (\<lambda>r. ret (r = 0)))"

text \<open>The three steps every scratch-buffer method is made of.\<close>

definition call_malloc :: "'w buf_engine \<Rightarrow> int \<Rightarrow> (int, 'w native_state) comp" where
  "call_malloc e bufferSize =
     invoke ''_malloc'' [Num bufferSize] Num (map_option (\<lambda>f. f bufferSize) (p_malloc e))"

definition call_free :: "'w buf_engine \<Rightarrow> int \<Rightarrow> (unit, 'w native_state) comp" where
  "call_free e bufferPtr =
     invoke ''_free'' [Num bufferPtr] (\<lambda>_. Undefined) (map_option (\<lambda>f. f bufferPtr) (p_free e))"

definition call_decodeCString :: "'w buf_engine \<Rightarrow> int \<Rightarrow> (string, 'w native_state) comp" where
  "call_decodeCString e ptr =
     invoke ''_decodeCString'' [Num ptr] Str (map_option (\<lambda>f. f ptr) (p_decodeCString e))"

text \<open>\<open>move && move !== "0000" ? move : null\<close>, with \<open>None\<close> for \<open>null\<close>.\<close>

definition move_or_null :: "string \<Rightarrow> string option" where
  "move_or_null move = (if move \<noteq> [] \<and> move \<noteq> ''0000'' then Some move else None)"

definition getBestMove ::
  "'w buf_engine \<Rightarrow> int option \<Rightarrow> (string option, 'w native_state) comp" where
  "getBestMove e depth =
     (if \<not> isInitialized e then throw (Err ''Engine not initialized'')
      else bindx (call_malloc e 32) (\<lambda>bufferPtr.
        if bufferPtr = 0 then throw (Err ''Failed to allocate memory for best move buffer'')
        else try_finally
          (bindx (invoke ''_chess_get_best_move''
                    [Num bufferPtr, Num 32, Num (depth_or_default depth)] Num
                    (map_option (\<lambda>f. f bufferPtr 32 (depth_or_default depth))
                       (p_chess_get_best_move e)))
             (\<lambda>status.
                if status \<noteq> 0 then ret None
                else bindx (call_decodeCString e bufferPtr) (\<lambda>move. ret (move_or_null move))))
          (call_free e bufferPtr)))"

text \<open>
  Strings of the model hold characters below 256; of these JavaScript's \<open>trim\<close> and
  \<open>\s\<close> take the tab, the line feed, the vertical tab, the form feed, the carriage
  return, the space and the no-break space for white space.
\<close>

definition is_space :: "char \<Rightarrow> bool" where
  "is_space c = (of_char c \<in> {9, 10, 11, 12, 13, 32, 160 :: nat})"

definition trim :: "string \<Rightarrow> string" where
  "trim s = rev (dropWhile is_space (rev (dropWhile is_space s)))"

text \<open>
  \<open>s.split(/\s+/)\<close>: the pieces between the maximal runs of white space; \<open>acc\<close> is
  the piece being read, reversed.
\<close>

function split_ws_from :: "string \<Rightarrow> string \<Rightarrow> string list" where
  "split_ws_from acc [] = [rev acc]"
| "split_ws_from acc (c # cs) =
     (if is_space c then rev acc # split_ws_from [] (dropWhile is_space cs)
      else split_ws_from (c # acc) cs)"
  by pat_completeness auto
termination
  by (relation "measure (\<lambda>(acc, s). length s)")
     (auto simp: less_Suc_eq_le length_dropWhile_le)

definition split_ws :: "string \<Rightarrow> string list" where
  "split_ws s = split_ws_from [] s"

text \<open>The lines after the status check of \<open>getLegalMoves\<close>, from the decoded payload.\<close>

definition moves_of_payload :: "string \<Rightarrow> string list" where
  "moves_of_payload payload =
     (let movesStr = trim payload in
      if movesStr = [] then [] else filter (\<lambda>m. m \<noteq> []) (split_ws movesStr))"

definition getLegalMoves :: "'w buf_engine \<Rightarrow> (string list, 'w native_state) comp" where
  "getLegalMoves e =
     (if \<not> isInitialized e then throw (Err ''Engine not initialized'')
      else bindx (call_malloc e 4096) (\<lambda>bufferPtr.
        if bufferPtr = 0 then throw (Err ''Failed to allocate memory for legal moves buffer'')
        else try_finally
          (bindx (invoke ''_chess_get_legal_moves'' [Num bufferPtr, Num 4096] Num
                    (map_option (\<lambda>f. f bufferPtr 4096) (p_chess_get_legal_moves e)))
             (\<lambda>count.
                if count < 0 then ret []
                else bindx (call_decodeCString e bufferPtr)
                       (\<lambda>payload. ret (moves_of_payload payload))))
          (call_free e bufferPtr)))"

definition getCurrentFen :: "'w buf_engine \<Rightarrow> (string, 'w native_state) comp" where
  "getCurrentFen e =
     (if \<not> isInitialized e then throw (Err ''Engine not initialized'')
      else bindx (call_malloc e 128) (\<lambda>bufferPtr.
        if bufferPtr = 0 then throw (Err ''Failed to allocate memory for FEN buffer'')
        else try_finally
          (bindx (invoke ''_chess_get_fen'' [Num bufferPtr, Num 128] Num
                    (map_option (\<lambda>f. f bufferPtr 128) (p_chess_get_fen e)))
             (\<lambda>status.
                if status \<noteq> 0 then ret []
                else call_decodeCString e bufferPtr))
          (call_free e bufferPtr)))"

subsection \<open>Call surface of the direct-return generation\<close>

definition setPosition_direct ::
  "'w direct_engine \<Rightarrow> string \<Rightarrow> (bool, 'w native_state) comp" where
  "setPosition_direct e fen =
     (if \<not> isInitialized e then throw (Err ''Engine not initialized'')
      else bindx (invoke ''chess_set_position'' [Str fen] Num
                    (map_option (\<lambda>f. f fen) (chess_set_position e)))
             (\<lambda>r. ret (r = 1)))"

definition makeMove_direct ::
  "'w direct_engine \<Rightarrow> string \<Rightarrow> (bool, 'w native_state) comp" where
  "makeMove_direct e move =
     (if \<not> isInitialized e then throw (Err ''Engine not initialized'')
      else bindx (invoke ''chess_make_move'' [Str move] Num
                    (map_option (\<lambda>f. f move) (chess_make_move e)))
             (\<lambda>r. ret (r = 1)))"

definition undoMove_direct :: "'w direct_engine \<Rightarrow> (bool, 'w native_state) comp" where
  "undoMove_direct e =
     (if \<not> isInitialized e then throw (Err ''Engine not initialized'')
      else bindx (invoke ''chess_undo_move'' [] Num (chess_undo_move e))
             (\<lambda>r. ret (r = 1)))"

definition getBestMove_direct ::
  "'w direct_engine \<Rightarrow> int option \<Rightarrow> (string option, 'w native_state) comp" where
  "getBestMove_direct e depth =
     (if \<not> isInitialized e then throw (Err ''Engine not initialized'')
      else bindx (invoke ''chess_get_best_move'' [Num (depth_or_default depth)] Str
                    (map_option (\<lambda>f. f (depth_or_default depth)) (chess_get_best_move e)))
             (\<lambda>move. ret (move_or_null move)))"

text \<open>\<open>s.split(",")\<close>: the pieces between the commas.\<close>

fun split_comma_from :: "string \<Rightarrow> string \<Rightarrow> string list" where
  "split_comma_from acc [] = [rev acc]"
| "split_comma_from acc (c # cs) =
     (if c = CHR '','' then rev acc # split_comma_from [] cs
      else split_comma_from (c # acc) cs)"

definition split_comma :: "string \<Rightarrow> string list" where
  "split_comma s = split_comma_from [] s"

definition moves_of_payload_direct :: "string \<Rightarrow> string list" where
  "moves_of_payload_direct movesStr =
     (if movesStr \<noteq> [] then filter (\<lambda>m. length m > 0) (split_comma movesStr) else [])"

definition getLegalMoves_direct ::
  "'w direct_engine \<Rightarrow> (string list, 'w native_state) comp" where
  "getLegalMoves_direct e =
     (if \<not> isInitialized e then throw (Err ''Engine not initialized'')
      else bindx (invoke ''chess_get_legal_moves'' [] Str (chess_get_legal_moves e))
             (\<lambda>movesStr. ret (moves_of_payload_direct movesStr)))"

definition getCurrentFen_direct :: "'w direct_engine \<Rightarrow> (string, 'w native_state) comp" where
  "getCurrentFen_direct e =
     (if \<not> isInitialized e then throw (Err ''Engine not initialized'')
      else invoke ''chess_get_fen'' [] Str (chess_get_fen e))"

subsection \<open>The analysis report\<close>

text \<open>
  The object \<open>analyzePosition\<close> returns: a field is \<open>None\<close> when the object has no
  such key; \<open>r_bestMove = Some None\<close> is the key \<open>bestMove\<close> holding \<open>null\<close>, and
  \<open>r_error = Some None\<close> is the key \<open>error\<close> holding \<open>undefined\<close>.
\<close>

record game_flags =
  g_isCheckmate :: bool
  g_isStalemate :: bool
  g_isInCheck :: bool

record report =
  r_error :: "string option option"
  r_success :: "bool option"
  r_bestMove :: "string option option"
  r_evaluation :: "int option"
  r_legalMoves :: "string list option"
  r_moveCount :: "nat option"
  r_gameState :: "game_flags option"
  r_depth :: "int option"
  r_fen :: "string option"

definition error_report :: "string option \<Rightarrow> report" where
  "error_report message = \<lparr>r_error = Some message, r_success = None, r_bestMove = None,
     r_evaluation = None, r_legalMoves = None, r_moveCount = None, r_gameState = None,
     r_depth = None, r_fen = None\<rparr>"

definition success_report ::
  "string option \<Rightarrow> int \<Rightarrow> string list \<Rightarrow> bool \<Rightarrow> bool \<Rightarrow> bool \<Rightarrow> int \<Rightarrow> string \<Rightarrow> report" where
  "success_report bestMove evaluation legalMoves cm sm ic depth fen =
     \<lparr>r_error = None, r_success = Some True, r_bestMove = Some bestMove,
      r_evaluation = Some evaluation, r_legalMoves = Some legalMoves,
      r_moveCount = Some (length legalMoves),
      r_gameState = Some \<lparr>g_isCheckmate = cm, g_isStalemate = sm, g_isInCheck = ic\<rparr>,
      r_depth = Some depth, r_fen = Some fen\<rparr>"

subsection \<open>\<open>analyzePosition\<close>\<close>

text \<open>The block \<open>catch (error) { return { error: error.message }; }\<close>.\<close>

definition report_caught :: "thrown \<Rightarrow> (report, 's) comp" where
  "report_caught error = bindx (lift (message_of error)) (\<lambda>message. ret (error_report message))"

text \<open>The statements inside \<open>try\<close>, with the depth already defaulted.\<close>

definition analysis_try ::
  "'w buf_engine \<Rightarrow> string \<Rightarrow> int \<Rightarrow> (report, 'w native_state) comp" where
  "analysis_try e fen depth =
     bindx (setPosition e fen) (\<lambda>ok.
       if \<not> ok then ret (error_report (Some ''Invalid FEN position''))
       else
         bindx (getBestMove e (Some depth)) (\<lambda>bestMove.
         bindx (evaluatePosition e) (\<lambda>evaluation.
         bindx (getLegalMoves e) (\<lambda>legalMoves.
         bindx (isCheckmate e) (\<lambda>cm.
         bindx (isStalemate e) (\<lambda>sm.
         bindx (isInCheck e) (\<lambda>ic.
         bindx (getCurrentFen e) (\<lambda>current.
           ret (success_report bestMove evaluation legalMoves cm sm ic depth current)))))))))"

definition analyzePosition ::
  "'w buf_engine \<Rightarrow> string \<Rightarrow> int option \<Rightarrow> (report, 'w native_state) comp" where
  "analyzePosition e fen depth =
     try_catch (analysis_try e fen (depth_or_default depth))
       report_caught"

definition analysis_try_direct ::
  "'w direct_engine \<Rightarrow> string \<Rightarrow> int \<Rightarrow> (report, 'w native_state) comp" where
  "analysis_try_direct e fen depth =
     bindx (setPosition_direct e fen) (\<lambda>ok.
       if \<not> ok then ret (error_report (Some ''Invalid FEN position''))
       else
         bindx (getBestMove_direct e (Some depth)) (\<lambda>bestMove.
         bindx (evaluatePosition e) (\<lambda>evaluation.
         bindx (getLegalMoves_direct e) (\<lambda>legalMoves.
         bindx (isCheckmate e) (\<lambda>cm.
         bindx (isStalemate e) (\<lambda>sm.
         bindx (isInCheck e) (\<lambda>ic.
         bindx (getCurrentFen_direct e) (\<lambda>current.
           ret (success_report bestMove evaluation legalMoves cm sm ic depth current)))))))))"

definition analyzePosition_direct ::
  "'w direct_engine \<Rightarrow> string \<Rightarrow> int option \<Rightarrow> (report, 'w native_state) comp" where
  "analyzePosition_direct e fen depth =
     try_catch (analysis_try_direct e fen (depth_or_default depth))
       report_caught"

subsection \<open>Loading the module\<close>

text \<open>
  The assignments \<open>this.f = Module.cwrap(name, ...)\<close> run in order; the first
  \<open>cwrap\<close> that throws leaves the earlier fields assigned and the later ones as
  they were.
\<close>

fun bind_wrappers ::
  "(string \<Rightarrow> thrown option) \<Rightarrow> (string \<times> ('e \<Rightarrow> 'e)) list \<Rightarrow> (unit, 'e) comp" where
  "bind_wrappers ct [] e = (Returns (), e)"
| "bind_wrappers ct ((name, assign) # rest) e =
     (case ct name of
        Some msg \<Rightarrow> (Throws msg, e)
      | None \<Rightarrow> bind_wrappers ct rest (assign e))"

text \<open>The closure assigned to \<open>_decodeCString\<close>.\<close>

definition decodeCString :: "'w buf_module \<Rightarrow> int \<Rightarrow> (string, 'w) native" where
  "decodeCString m ptr w =
     (if ptr = 0 then (Returns [], w)
      else (case UTF8ToString m of
          Some f \<Rightarrow> f ptr w
        | None \<Rightarrow> (case UTF8ArrayToString m of
              Some g \<Rightarrow> g ptr w
            | None \<Rightarrow> (Throws (Err ''UTF-8 decoding helpers are unavailable''), w))))"

definition setupFunctionWrappers :: "(unit, 'w buf_engine) comp" where
  "setupFunctionWrappers e =
     (case module e of
        None \<Rightarrow> (Throws (Err ''Cannot read properties of null''), e)
      | Some m \<Rightarrow>
          bindx (bind_wrappers (cwrap_throws m)
            [(''chess_init'', \<lambda>x. x\<lparr>chess_init := Some (c_chess_init m)\<rparr>),
             (''chess_cleanup'', \<lambda>x. x\<lparr>chess_cleanup := Some (c_chess_cleanup m)\<rparr>),
             (''chess_set_position'',
                \<lambda>x. x\<lparr>chess_set_position := Some (c_chess_set_position m)\<rparr>),
             (''chess_get_fen'', \<lambda>x. x\<lparr>p_chess_get_fen := Some (b_chess_get_fen m)\<rparr>),
             (''chess_get_best_move'',
                \<lambda>x. x\<lparr>p_chess_get_best_move := Some (b_chess_get_best_move m)\<rparr>),
             (''chess_make_move'', \<lambda>x. x\<lparr>chess_make_move := Some (c_chess_make_move m)\<rparr>),
             (''chess_undo_move'', \<lambda>x. x\<lparr>chess_undo_move := Some (c_chess_undo_move m)\<rparr>),
             (''chess_get_legal_moves'',
                \<lambda>x. x\<lparr>p_chess_get_legal_moves := Some (b_chess_get_legal_moves m)\<rparr>),
             (''chess_is_checkmate'',
                \<lambda>x. x\<lparr>chess_is_checkmate := Some (c_chess_is_checkmate m)\<rparr>),
             (''chess_is_stalemate'',
                \<lambda>x. x\<lparr>chess_is_stalemate := Some (c_chess_is_stalemate m)\<rparr>),
             (''chess_is_in_check'',
                \<lambda>x. x\<lparr>chess_is_in_check := Some (c_chess_is_in_check m)\<rparr>),
             (''chess_evaluate_position'',
                \<lambda>x. x\<lparr>chess_evaluate_position := Some (c_chess_evaluate_position m)\<rparr>)])
            (\<lambda>_ e1.
               let e2 = e1\<lparr>p_malloc := m_malloc m, p_free := m_free m\<rparr> in
               if p_malloc e2 = None \<or> p_free e2 = None
               then (Throws (Err ''Emscripten memory helpers (_malloc/_free) are unavailable''), e2)
               else (Returns (), e2\<lparr>p_decodeCString := Some (decodeCString m)\<rparr>))
            e)"

definition setupFunctionWrappers_direct :: "(unit, 'w direct_engine) comp" where
  "setupFunctionWrappers_direct e =
     (case module_direct e of
        None \<Rightarrow> (Throws (Err ''Cannot read properties of null''), e)
      | Some m \<Rightarrow>
          bind_wrappers (cwrap_throws m)
            [(''chess_init'', \<lambda>x. x\<lparr>chess_init := Some (c_chess_init m)\<rparr>),
             (''chess_cleanup'', \<lambda>x. x\<lparr>chess_cleanup := Some (c_chess_cleanup m)\<rparr>),
             (''chess_set_position'',
                \<lambda>x. x\<lparr>chess_set_position := Some (c_chess_set_position m)\<rparr>),
             (''chess_get_fen'', \<lambda>x. x\<lparr>chess_get_fen := Some (d_chess_get_fen m)\<rparr>),
             (''chess_get_best_move'',
                \<lambda>x. x\<lparr>chess_get_best_move := Some (d_chess_get_best_move m)\<rparr>),
             (''chess_make_move'', \<lambda>x. x\<lparr>chess_make_move := Some (c_chess_make_move m)\<rparr>),
             (''chess_undo_move'', \<lambda>x. x\<lparr>chess_undo_move := Some (c_chess_undo_move m)\<rparr>),
             (''chess_get_legal_moves'',
                \<lambda>x. x\<lparr>chess_get_legal_moves := Some (d_chess_get_legal_moves m)\<rparr>),
             (''chess_is_checkmate'',
                \<lambda>x. x\<lparr>chess_is_checkmate := Some (c_chess_is_checkmate m)\<rparr>),
             (''chess_is_stalemate'',
                \<lambda>x. x\<lparr>chess_is_stalemate := Some (c_chess_is_stalemate m)\<rparr>),
             (''chess_is_in_check'',
                \<lambda>x. x\<lparr>chess_is_in_check := Some (c_chess_is_in_check m)\<rparr>),
             (''chess_evaluate_position'',
                \<lambda>x. x\<lparr>chess_evaluate_position := Some (c_chess_evaluate_position m)\<rparr>)]
            e)"

text \<open>
  The page the script-tag loaders run in: \<open>loadScript\<close> resolves or rejects (with
  the error event of the script element) for a URL, and \<open>ChessEngine\<close> is the
  global the script leaves (\<open>None\<close> when
  \<open>typeof ChessEngine\<close> is \<open>"undefined"\<close>), a factory that is given \<open>locateFile\<close>
  and resolves to the module or rejects.
\<close>

record 'm script_host =
  loadScript :: "string \<Rightarrow> unit outcome"
  ChessEngine :: "((string \<Rightarrow> string \<Rightarrow> string) \<Rightarrow> 'm outcome) option"

definition normalizedBaseUrl :: "string \<Rightarrow> string" where
  "normalizedBaseUrl baseUrl = (if suffix ''/'' baseUrl then butlast baseUrl else baseUrl)"

definition locateFile :: "string \<Rightarrow> string \<Rightarrow> string \<Rightarrow> string" where
  "locateFile wasmFileUrl path pfx =
     (if suffix ''.wasm'' path then wasmFileUrl else pfx @ path)"

text \<open>Up to and including \<open>await ChessEngine({ locateFile })\<close>.\<close>

definition fetch_module :: "'m script_host \<Rightarrow> string option \<Rightarrow> 'm outcome" where
  "fetch_module h baseUrl =
     (let base = normalizedBaseUrl (case baseUrl of None \<Rightarrow> ''./'' | Some b \<Rightarrow> b);
          jsUrl = base @ ''/chess_wasm.js'';
          wasmFileUrl = base @ ''/chess_wasm.wasm''
      in case loadScript h jsUrl of
           Throws msg \<Rightarrow> Throws msg
         | Returns _ \<Rightarrow>
             (case ChessEngine h of
                None \<Rightarrow> Throws (Err ''chess_wasm.js did not expose ChessEngine function'')
              | Some factory \<Rightarrow> factory (locateFile wasmFileUrl)))"

definition loadModule ::
  "'w buf_module script_host \<Rightarrow> string option \<Rightarrow> (bool, 'w buf_engine) comp" where
  "loadModule h baseUrl =
     try_catch
       (bindx (lift (fetch_module h baseUrl)) (\<lambda>m e.
          bindx setupFunctionWrappers (\<lambda>_ e2. (Returns True, e2\<lparr>isReady := True\<rparr>))
            (e\<lparr>module := Some m\<rparr>)))
       (\<lambda>error. ret False)"

text \<open>
  The second class of \<open>src/unnamed/part_000\<close>: the same loader in front of the
  direct-return wrappers.
\<close>

definition loadModule_script_direct ::
  "'w direct_module script_host \<Rightarrow> string option \<Rightarrow> (bool, 'w direct_engine) comp" where
  "loadModule_script_direct h baseUrl =
     try_catch
       (bindx (lift (fetch_module h baseUrl)) (\<lambda>m e.
          bindx setupFunctionWrappers_direct (\<lambda>_ e2. (Returns True, e2\<lparr>isReady := True\<rparr>))
            (e\<lparr>module_direct := Some m\<rparr>)))
       (\<lambda>error. ret False)"

text \<open>
  \<open>src/chess/web/chess_engine_wrapper.js\<close> imports the script: \<open>import_js path\<close>
  rejects or resolves to a namespace, whose \<open>default\<close> is \<open>None\<close> when it cannot be
  called and otherwise what calling it resolves to.
\<close>

record 'm import_host =
  import_js :: "string \<Rightarrow> 'm outcome option outcome"

definition loadModule_direct ::
  "'w direct_module import_host \<Rightarrow> string \<Rightarrow> string \<Rightarrow> (bool, 'w direct_engine) comp" where
  "loadModule_direct h wasmPath jsPath =
     try_catch
       (bindx (lift (import_js h jsPath)) (\<lambda>ns.
          case ns of
            None \<Rightarrow> throw (Err ''ChessEngine.default is not a function'')
          | Some made \<Rightarrow>
              bindx (lift made) (\<lambda>m e.
                bindx setupFunctionWrappers_direct
                  (\<lambda>_ e2. (Returns True, e2\<lparr>isReady := True\<rparr>))
                  (e\<lparr>module_direct := Some m\<rparr>))))
       (\<lambda>error. ret False)"

subsection \<open>Scratch regions in the log\<close>

text \<open>
  A region is acquired when \<open>_malloc\<close> returns a pointer other than \<open>0\<close>, and
  released when \<open>_free\<close> is called on a pointer.
\<close>

fun acquired_by :: "event \<Rightarrow> int list" where
  "acquired_by (Call name args r) =
     (if name = ''_malloc''
      then (case r of Returns (Num p) \<Rightarrow> (if p \<noteq> 0 then [p] else []) | _ \<Rightarrow> [])
      else [])"

fun released_by :: "event \<Rightarrow> int list" where
  "released_by (Call name args r) =
     (if name = ''_free'' then (case args of [Num p] \<Rightarrow> [p] | _ \<Rightarrow> []) else [])"

definition acquired :: "event list \<Rightarrow> int list" where
  "acquired log = concat (map acquired_by log)"

definition released :: "event list \<Rightarrow> int list" where
  "released log = concat (map released_by log)"

text \<open>The events a run appended to the log.\<close>

definition new_calls :: "'w native_state \<Rightarrow> 'w native_state \<Rightarrow> event list" where
  "new_calls s s' = drop (length (calls s)) (calls s')"




subsection \<open>Concrete modules, to run the model on\<close>

text \<open>
  A native side whose state is the text in its one scratch region (at the address
  \<open>1024\<close>): \<open>set_position\<close> answers \<open>pos_status\<close>, the three buffer symbols write
  \<open>text\<close> and answer \<open>status\<close>.
\<close>

definition demo_module :: "int \<Rightarrow> int \<Rightarrow> string \<Rightarrow> string buf_module" where
  "demo_module pos_status status text =
     \<lparr>cwrap_throws = (\<lambda>_. None),
      c_chess_init = (\<lambda>w. (Returns 0, w)),
      c_chess_cleanup = (\<lambda>w. (Returns (), w)),
      c_chess_set_position = (\<lambda>fen w. (Returns pos_status, w)),
      c_chess_make_move = (\<lambda>move w. (Returns 0, w)),
      c_chess_undo_move = (\<lambda>w. (Returns 0, w)),
      c_chess_is_checkmate = (\<lambda>w. (Returns 0, w)),
      c_chess_is_stalemate = (\<lambda>w. (Returns 0, w)),
      c_chess_is_in_check = (\<lambda>w. (Returns 1, w)),
      c_chess_evaluate_position = (\<lambda>w. (Returns 25, w)),
      b_chess_get_fen = (\<lambda>ptr cap w. (Returns status, text)),
      b_chess_get_best_move = (\<lambda>ptr cap depth w. (Returns status, text)),
      b_chess_get_legal_moves = (\<lambda>ptr cap w. (Returns status, text)),
      m_malloc = Some (\<lambda>n w. (Returns 1024, w)),
      m_free = Some (\<lambda>p w. (Returns (), w)),
      UTF8ToString = Some (\<lambda>p w. (Returns w, w)),
      UTF8ArrayToString = None\<rparr>"

definition demo_module_direct :: "int \<Rightarrow> string \<Rightarrow> string direct_module" where
  "demo_module_direct pos_status text =
     \<lparr>cwrap_throws = (\<lambda>_. None),
      c_chess_init = (\<lambda>w. (Returns 1, w)),
      c_chess_cleanup = (\<lambda>w. (Returns (), w)),
      c_chess_set_position = (\<lambda>fen w. (Returns pos_status, w)),
      c_chess_make_move = (\<lambda>move w. (Returns 1, w)),
      c_chess_undo_move = (\<lambda>w. (Returns 1, w)),
      c_chess_is_checkmate = (\<lambda>w. (Returns 0, w)),
      c_chess_is_stalemate = (\<lambda>w. (Returns 0, w)),
      c_chess_is_in_check = (\<lambda>w. (Returns 1, w)),
      c_chess_evaluate_position = (\<lambda>w. (Returns 25, w)),
      d_chess_get_fen = (\<lambda>w. (Returns text, w)),
      d_chess_get_best_move = (\<lambda>depth w. (Returns text, w)),
      d_chess_get_legal_moves = (\<lambda>w. (Returns text, w))\<rparr>"

text \<open>The object after a successful \<open>loadModule\<close> and \<open>init\<close> on a module.\<close>

definition wired :: "'w buf_module \<Rightarrow> 'w buf_engine" where
  "wired m =
     \<lparr>isReady = True, isInitialized = True,
      chess_init = Some (c_chess_init m), chess_cleanup = Some (c_chess_cleanup m),
      chess_set_position = Some (c_chess_set_position m),
      chess_make_move = Some (c_chess_make_move m),
      chess_undo_move = Some (c_chess_undo_move m),
      chess_is_checkmate = Some (c_chess_is_checkmate m),
      chess_is_stalemate = Some (c_chess_is_stalemate m),
      chess_is_in_check = Some (c_chess_is_in_check m),
      chess_evaluate_position = Some (c_chess_evaluate_position m),
      module = Some m,
      p_chess_get_best_move = Some (b_chess_get_best_move m),
      p_chess_get_legal_moves = Some (b_chess_get_legal_moves m),
      p_chess_get_fen = Some (b_chess_get_fen m),
      p_malloc = m_malloc m, p_free = m_free m,
      p_decodeCString = Some (decodeCString m)\<rparr>"

definition wired_direct :: "'w direct_module \<Rightarrow> 'w direct_engine" where
  "wired_direct m =
     \<lparr>isReady = True, isInitialized = True,
      chess_init = Some (c_chess_init m), chess_cleanup = Some (c_chess_cleanup m),
      chess_set_position = Some (c_chess_set_position m),
      chess_make_move = Some (c_chess_make_move m),
      chess_undo_move = Some (c_chess_undo_move m),
      chess_is_checkmate = Some (c_chess_is_checkmate m),
      chess_is_stalemate = Some (c_chess_is_stalemate m),
      chess_is_in_check = Some (c_chess_is_in_check m),
      chess_evaluate_position = Some (c_chess_evaluate_position m),
      module_direct = Some m,
      chess_get_best_move = Some (d_chess_get_best_move m),
      chess_get_legal_moves = Some (d_chess_get_legal_moves m),
      chess_get_fen = Some (d_chess_get_fen m)\<rparr>"

definition fresh :: "string native_state" where
  "fresh = \<lparr>world = [], calls = []\<rparr>"

definition demo_host :: "'m \<Rightarrow> 'm script_host" where
  "demo_host m = \<lparr>loadScript = (\<lambda>url. Returns ()), ChessEngine = Some (\<lambda>locate. Returns m)\<rparr>"

definition offline_host :: "'m script_host" where
  "offline_host = \<lparr>loadScript = (\<lambda>url. Throws NoMessage), ChessEngine = None\<rparr>"

definition demo_import_host :: "'m \<Rightarrow> 'm import_host" where
  "demo_import_host m = \<lparr>import_js = (\<lambda>path. Returns (Some (Returns m)))\<rparr>"

definition offline_import_host :: "'m import_host" where
  "offline_import_host = \<lparr>import_js = (\<lambda>path. Throws (Err ''Failed to fetch''))\<rparr>"




subsection \<open>Computations that neither acquire nor release\<close>

text \<open>
  A computation is quiet when it only appends to the log, and appends neither a
  region acquired nor a region released.
\<close>

definition quiet :: "('a, 'w native_state) comp \<Rightarrow> bool" where
  "quiet m = (\<forall>s r s'. m s = (r, s') \<longrightarrow>
     (\<exists>d. calls s' = calls s @ d \<and> acquired d = [] \<and> released d = []))"

subsection \<open>Predicates of the specification\<close>




text \<open>
  The notation of a move token as the specification words it (four or five
  characters in coordinate form, as in \<open>e2e4\<close> and \<open>e7e8q\<close>); the source has no such
  check.
\<close>

definition spec_move_token :: "string \<Rightarrow> bool" where
  "spec_move_token t =
     (case t of
        [f1, r1, f2, r2] \<Rightarrow>
          f1 \<in> set ''abcdefgh'' \<and> r1 \<in> set ''12345678'' \<and>
          f2 \<in> set ''abcdefgh'' \<and> r2 \<in> set ''12345678''
      | [f1, r1, f2, r2, p] \<Rightarrow>
          f1 \<in> set ''abcdefgh'' \<and> r1 \<in> set ''12345678'' \<and>
          f2 \<in> set ''abcdefgh'' \<and> r2 \<in> set ''12345678'' \<and> p \<in> set ''qrbn''
      | _ \<Rightarrow> False)"

text \<open>A blank payload: nothing but white space.\<close>

definition blank :: "string \<Rightarrow> bool" where
  "blank s = list_all is_space s"

text \<open>
  No wrapper of the object can be reached: \<open>init\<close> refuses, \<open>cleanup\<close> does
  nothing, every guarded method throws, \<open>analyzePosition\<close> reports the error, and
  the native state and the log stay as they were.
\<close>

definition rejects_all ::
  "'w buf_engine \<Rightarrow> 'w native_state \<Rightarrow> string \<Rightarrow> int option \<Rightarrow> string \<Rightarrow> bool" where
  "rejects_all e s fen depth move =
     (init e s = (Throws (Err ''WASM module not loaded yet''), e, s) \<and>
      cleanup e s = (Returns (), e, s) \<and>
      setPosition e fen s = (Throws (Err ''Engine not initialized''), s) \<and>
      getBestMove e depth s = (Throws (Err ''Engine not initialized''), s) \<and>
      makeMove e move s = (Throws (Err ''Engine not initialized''), s) \<and>
      undoMove e s = (Throws (Err ''Engine not initialized''), s) \<and>
      getLegalMoves e s = (Throws (Err ''Engine not initialized''), s) \<and>
      isCheckmate e s = (Throws (Err ''Engine not initialized''), s) \<and>
      isStalemate e s = (Throws (Err ''Engine not initialized''), s) \<and>
      isInCheck e s = (Throws (Err ''Engine not initialized''), s) \<and>
      evaluatePosition e s = (Throws (Err ''Engine not initialized''), s) \<and>
      getCurrentFen e s = (Throws (Err ''Engine not initialized''), s) \<and>
      analyzePosition e fen depth s = (Returns (error_report (Some ''Engine not initialized'')), s))"

definition rejects_all_direct ::
  "'w direct_engine \<Rightarrow> 'w native_state \<Rightarrow> string \<Rightarrow> int option \<Rightarrow> string \<Rightarrow> bool" where
  "rejects_all_direct e s fen depth move =
     (init_direct e s = (Throws (Err ''WASM module not loaded yet''), e, s) \<and>
      cleanup e s = (Returns (), e, s) \<and>
      setPosition_direct e fen s = (Throws (Err ''Engine not initialized''), s) \<and>
      getBestMove_direct e depth s = (Throws (Err ''Engine not initialized''), s) \<and>
      makeMove_direct e move s = (Throws (Err ''Engine not initialized''), s) \<and>
      undoMove_direct e s = (Throws (Err ''Engine not initialized''), s) \<and>
      getLegalMoves_direct e s = (Throws (Err ''Engine not initialized''), s) \<and>
      isCheckmate e s = (Throws (Err ''Engine not initialized''), s) \<and>
      isStalemate e s = (Throws (Err ''Engine not initialized''), s) \<and>
      isInCheck e s = (Throws (Err ''Engine not initialized''), s) \<and>
      evaluatePosition e s = (Throws (Err ''Engine not initialized''), s) \<and>
      getCurrentFen_direct e s = (Throws (Err ''Engine not initialized''), s) \<and>
      analyzePosition_direct e fen depth s
        = (Returns (error_report (Some ''Engine not initialized'')), s))"

section \<open>Properties\<close>

subsection \<open>Sequencing and the log\<close>

lemmas run_defs = bindx_def try_finally_def try_catch_def call_malloc_def call_free_def
  call_decodeCString_def invoke_def ret_def throw_def lift_def decodeCString_def
  depth_or_default_def move_or_null_def

lemma bindx_Returns_iff:
  "bindx m k s = (Returns b, s') \<longleftrightarrow> (\<exists>a s1. m s = (Returns a, s1) \<and> k a s1 = (Returns b, s'))"
  by (auto simp: bindx_def split: prod.splits outcome.splits)

lemma bindx_Throws_iff:
  "bindx m k s = (Throws msg, s') \<longleftrightarrow>
     m s = (Throws msg, s') \<or> (\<exists>a s1. m s = (Returns a, s1) \<and> k a s1 = (Throws msg, s'))"
  by (auto simp: bindx_def split: prod.splits outcome.splits)



lemma invoke_grows:
  assumes "invoke name args enc f s = (r, s')"
  shows "\<exists>d. calls s' = calls s @ d \<and> (d = [] \<or> d = [Call name args (map_outcome enc r)])"
  using assms by (auto simp: invoke_def split: option.splits prod.splits)





lemma quiet_throw: "quiet (throw msg)"
  by (simp add: quiet_def throw_def acquired_def released_def)






subsection \<open>Scratch regions\<close>

















subsection \<open>The guard of the call surface\<close>

text \<open>
  Claim C1. In a state other than \<open>Initialized\<close>, each of \<open>setPosition\<close>,
  \<open>getBestMove\<close>, \<open>makeMove\<close>, \<open>undoMove\<close>, \<open>getLegalMoves\<close>, \<open>isCheckmate\<close>,
  \<open>isStalemate\<close>, \<open>isInCheck\<close>, \<open>evaluatePosition\<close> and \<open>getCurrentFen\<close>, of either
  generation, throws the error \<open>Engine not initialized\<close> and leaves the native state
  and the log of native calls as they were: nothing native was called.
\<close>

theorem not_initialized_rejects:
  fixes e :: "'w buf_engine" and d :: "'w direct_engine"
  assumes "state_of e \<noteq> Initialized" and "state_of d \<noteq> Initialized"
  shows "setPosition e fen s = (Throws (Err ''Engine not initialized''), s) \<and>
         getBestMove e depth s = (Throws (Err ''Engine not initialized''), s) \<and>
         makeMove e move s = (Throws (Err ''Engine not initialized''), s) \<and>
         undoMove e s = (Throws (Err ''Engine not initialized''), s) \<and>
         getLegalMoves e s = (Throws (Err ''Engine not initialized''), s) \<and>
         isCheckmate e s = (Throws (Err ''Engine not initialized''), s) \<and>
         isStalemate e s = (Throws (Err ''Engine not initialized''), s) \<and>
         isInCheck e s = (Throws (Err ''Engine not initialized''), s) \<and>
         evaluatePosition e s = (Throws (Err ''Engine not initialized''), s) \<and>
         getCurrentFen e s = (Throws (Err ''Engine not initialized''), s) \<and>
         setPosition_direct d fen s = (Throws (Err ''Engine not initialized''), s) \<and>
         getBestMove_direct d depth s = (Throws (Err ''Engine not initialized''), s) \<and>
         makeMove_direct d move s = (Throws (Err ''Engine not initialized''), s) \<and>
         undoMove_direct d s = (Throws (Err ''Engine not initialized''), s) \<and>
         getLegalMoves_direct d s = (Throws (Err ''Engine not initialized''), s) \<and>
         isCheckmate d s = (Throws (Err ''Engine not initialized''), s) \<and>
         isStalemate d s = (Throws (Err ''Engine not initialized''), s) \<and>
         isInCheck d s = (Throws (Err ''Engine not initialized''), s) \<and>
         evaluatePosition d s = (Throws (Err ''Engine not initialized''), s) \<and>
         getCurrentFen_direct d s = (Throws (Err ''Engine not initialized''), s)"
proof -
  from assms have e: "\<not> isInitialized e" and d: "\<not> isInitialized d"
    by (simp_all add: state_of_def split: if_splits)
  show ?thesis
    using e d
    by (simp add: setPosition_def getBestMove_def makeMove_def undoMove_def getLegalMoves_def
          isCheckmate_def isStalemate_def isInCheck_def evaluatePosition_def getCurrentFen_def
          setPosition_direct_def getBestMove_direct_def makeMove_direct_def undoMove_direct_def
          getLegalMoves_direct_def getCurrentFen_direct_def throw_def)
qed

text \<open>
  On an object that is loaded and wired but not initialized, and on a freshly
  constructed one.
\<close>

theorem not_initialized_rejects_witness:
  "state_of ((wired (demo_module 0 0 ''e2e4''))\<lparr>isInitialized := False\<rparr>) \<noteq> Initialized \<and>
   state_of (constructor_direct :: string direct_engine) \<noteq> Initialized \<and>
   getBestMove ((wired (demo_module 0 0 ''e2e4''))\<lparr>isInitialized := False\<rparr>) None fresh
     = (Throws (Err ''Engine not initialized''), fresh) \<and>
   calls (snd (getBestMove ((wired (demo_module 0 0 ''e2e4''))\<lparr>isInitialized := False\<rparr>)
                 None fresh)) = [] \<and>
   getCurrentFen_direct constructor_direct fresh = (Throws (Err ''Engine not initialized''), fresh)"
  using not_initialized_rejects[of "(wired (demo_module 0 0 ''e2e4''))\<lparr>isInitialized := False\<rparr>"
      "constructor_direct :: string direct_engine" "''x''" fresh None "''e2e4''"]
  by (simp add: state_of_def wired_def constructor_direct_def fresh_def)

subsection \<open>Exceptions: \<open>finally\<close> and \<open>catch\<close>\<close>

lemma try_finally_Returns_iff:
  "try_finally body fin s = (Returns r, s') \<longleftrightarrow>
     (\<exists>s1 u. body s = (Returns r, s1) \<and> fin s1 = (Returns u, s'))"
  by (auto simp: try_finally_def split: prod.splits outcome.splits)



subsection \<open>\<open>analyzePosition\<close>\<close>









text \<open>
  Claim C5. When \<open>setPosition(fen)\<close> returns \<open>false\<close> inside \<open>analyzePosition\<close>, the
  report is the failure report with the message \<open>Invalid FEN position\<close> and nothing
  else, and the native state and the log are those \<open>setPosition\<close> left: the one
  native call of the whole analysis is \<open>chess_set_position\<close>.
\<close>

theorem invalid_fen_short_circuits:
  fixes e :: "'w buf_engine" and d :: "'w direct_engine"
  shows "(setPosition e fen s = (Returns False, s1) \<longrightarrow>
            analyzePosition e fen depth s = (Returns (error_report (Some ''Invalid FEN position'')), s1) \<and>
            (\<exists>status. status \<noteq> 0 \<and>
               new_calls s s1 = [Call ''chess_set_position'' [Str fen] (Returns (Num status))])) \<and>
         (setPosition_direct d fen t = (Returns False, t1) \<longrightarrow>
            analyzePosition_direct d fen depth t
              = (Returns (error_report (Some ''Invalid FEN position'')), t1) \<and>
            (\<exists>status. status \<noteq> 1 \<and>
               new_calls t t1 = [Call ''chess_set_position'' [Str fen] (Returns (Num status))]))"
proof (intro conjI impI)
  assume a: "setPosition e fen s = (Returns False, s1)"
  then show "analyzePosition e fen depth s = (Returns (error_report (Some ''Invalid FEN position'')), s1)"
    by (simp add: analyzePosition_def analysis_try_def try_catch_def bindx_def ret_def)
  from a show "\<exists>status. status \<noteq> 0 \<and>
      new_calls s s1 = [Call ''chess_set_position'' [Str fen] (Returns (Num status))]"
    by (auto simp: setPosition_def throw_def bindx_def ret_def invoke_def new_calls_def
             split: if_splits option.splits prod.splits outcome.splits)
next
  assume a: "setPosition_direct d fen t = (Returns False, t1)"
  then show "analyzePosition_direct d fen depth t
               = (Returns (error_report (Some ''Invalid FEN position'')), t1)"
    by (simp add: analyzePosition_direct_def analysis_try_direct_def try_catch_def bindx_def ret_def)
  from a show "\<exists>status. status \<noteq> 1 \<and>
      new_calls t t1 = [Call ''chess_set_position'' [Str fen] (Returns (Num status))]"
    by (auto simp: setPosition_direct_def throw_def bindx_def ret_def invoke_def new_calls_def
             split: if_splits option.splits prod.splits outcome.splits)
qed

theorem invalid_fen_short_circuits_witness:
  "setPosition (wired (demo_module 1 0 ''e2e4'')) ''not a fen'' fresh
     = (Returns False,
        \<lparr>world = [], calls = [Call ''chess_set_position'' [Str ''not a fen''] (Returns (Num 1))]\<rparr>) \<and>
   analyzePosition (wired (demo_module 1 0 ''e2e4'')) ''not a fen'' None fresh
     = (Returns (error_report (Some ''Invalid FEN position'')),
        \<lparr>world = [], calls = [Call ''chess_set_position'' [Str ''not a fen''] (Returns (Num 1))]\<rparr>) \<and>
   setPosition_direct (wired_direct (demo_module_direct 0 ''e2e4'')) ''not a fen'' fresh
     = (Returns False,
        \<lparr>world = [], calls = [Call ''chess_set_position'' [Str ''not a fen''] (Returns (Num 0))]\<rparr>) \<and>
   analyzePosition_direct (wired_direct (demo_module_direct 0 ''e2e4'')) ''not a fen'' None fresh
     = (Returns (error_report (Some ''Invalid FEN position'')),
        \<lparr>world = [], calls = [Call ''chess_set_position'' [Str ''not a fen''] (Returns (Num 0))]\<rparr>)"
  using invalid_fen_short_circuits[of "wired (demo_module 1 0 ''e2e4'')" "''not a fen''" fresh
      "\<lparr>world = [], calls = [Call ''chess_set_position'' [Str ''not a fen''] (Returns (Num 1))]\<rparr>"
      None "wired_direct (demo_module_direct 0 ''e2e4'')" fresh
      "\<lparr>world = [], calls = [Call ''chess_set_position'' [Str ''not a fen''] (Returns (Num 0))]\<rparr>"]
  by (simp add: setPosition_def setPosition_direct_def wired_def wired_direct_def
        demo_module_def demo_module_direct_def fresh_def run_defs)




subsection \<open>\<open>getBestMove\<close>\<close>

text \<open>
  Claim C2, as the code has it. When \<open>getBestMove\<close> returns (the object is then
  initialized and the allocation gave a pointer other than \<open>0\<close>), the result is
  \<open>null\<close> exactly when the native status is not \<open>0\<close>, or the decoded token is empty,
  or it is \<open>0000\<close>; in every other case the result is the decoded token, unchanged
  and unchecked. The direct-return generation has no status: the result is \<open>null\<close>
  exactly when the token is empty or \<open>0000\<close>, and the token otherwise. In both,
  \<open>0000\<close> is never returned.
\<close>

theorem getBestMove_result:
  fixes e :: "'w buf_engine" and d :: "'w direct_engine"
  shows "(getBestMove e depth s = (Returns r, s') \<longrightarrow>
            isInitialized e \<and> r \<noteq> Some ''0000'' \<and>
            (\<exists>ptr s1 status s2.
               call_malloc e 32 s = (Returns ptr, s1) \<and> ptr \<noteq> 0 \<and>
               invoke ''_chess_get_best_move'' [Num ptr, Num 32, Num (depth_or_default depth)] Num
                 (map_option (\<lambda>f. f ptr 32 (depth_or_default depth)) (p_chess_get_best_move e)) s1
                 = (Returns status, s2) \<and>
               (if status \<noteq> 0 then r = None
                else (\<exists>token s3. call_decodeCString e ptr s2 = (Returns token, s3) \<and>
                        (r = None \<longleftrightarrow> token = [] \<or> token = ''0000'') \<and>
                        (r \<noteq> None \<longrightarrow> r = Some token))))) \<and>
         (getBestMove_direct d depth t = (Returns r', t') \<longrightarrow>
            isInitialized d \<and> r' \<noteq> Some ''0000'' \<and>
            (\<exists>token.
               invoke ''chess_get_best_move'' [Num (depth_or_default depth)] Str
                 (map_option (\<lambda>f. f (depth_or_default depth)) (chess_get_best_move d)) t
                 = (Returns token, t') \<and>
               (r' = None \<longleftrightarrow> token = [] \<or> token = ''0000'') \<and>
               (r' \<noteq> None \<longrightarrow> r' = Some token)))"
proof (intro conjI impI)
  assume a: "getBestMove e depth s = (Returns r, s')"
  then show i: "isInitialized e"
    by (auto simp: getBestMove_def throw_def split: if_splits)
  with a obtain ptr s1 where m: "call_malloc e 32 s = (Returns ptr, s1)"
    and rest: "(if ptr = 0 then throw (Err ''Failed to allocate memory for best move buffer'')
        else try_finally
          (bindx (invoke ''_chess_get_best_move''
                    [Num ptr, Num 32, Num (depth_or_default depth)] Num
                    (map_option (\<lambda>f. f ptr 32 (depth_or_default depth))
                       (p_chess_get_best_move e)))
             (\<lambda>status.
                if status \<noteq> 0 then ret None
                else bindx (call_decodeCString e ptr) (\<lambda>move. ret (move_or_null move))))
          (call_free e ptr)) s1 = (Returns r, s')"
    by (auto simp: getBestMove_def bindx_Returns_iff)
  from rest have nz: "ptr \<noteq> 0" by (auto simp: throw_def split: if_splits)
  with rest obtain sb u where body: "bindx (invoke ''_chess_get_best_move''
                    [Num ptr, Num 32, Num (depth_or_default depth)] Num
                    (map_option (\<lambda>f. f ptr 32 (depth_or_default depth))
                       (p_chess_get_best_move e)))
             (\<lambda>status.
                if status \<noteq> 0 then ret None
                else bindx (call_decodeCString e ptr) (\<lambda>move. ret (move_or_null move))) s1
              = (Returns r, sb)"
    by (auto simp: try_finally_Returns_iff)
  then obtain status s2 where st: "invoke ''_chess_get_best_move''
                    [Num ptr, Num 32, Num (depth_or_default depth)] Num
                    (map_option (\<lambda>f. f ptr 32 (depth_or_default depth))
                       (p_chess_get_best_move e)) s1 = (Returns status, s2)"
    and k: "(if status \<noteq> 0 then ret None
                else bindx (call_decodeCString e ptr) (\<lambda>move. ret (move_or_null move))) s2
             = (Returns r, sb)"
    unfolding bindx_Returns_iff by blast
  have tail: "if status \<noteq> 0 then r = None
       else (\<exists>token s3. call_decodeCString e ptr s2 = (Returns token, s3) \<and>
               (r = None \<longleftrightarrow> token = [] \<or> token = ''0000'') \<and>
               (r \<noteq> None \<longrightarrow> r = Some token))"
    using k by (auto simp: ret_def bindx_Returns_iff move_or_null_def split: if_splits)
  then show "r \<noteq> Some ''0000''" by (auto split: if_splits)
  from m nz st tail
  show "\<exists>ptr s1 status s2.
          call_malloc e 32 s = (Returns ptr, s1) \<and> ptr \<noteq> 0 \<and>
          invoke ''_chess_get_best_move'' [Num ptr, Num 32, Num (depth_or_default depth)] Num
            (map_option (\<lambda>f. f ptr 32 (depth_or_default depth)) (p_chess_get_best_move e)) s1
            = (Returns status, s2) \<and>
          (if status \<noteq> 0 then r = None
           else (\<exists>token s3. call_decodeCString e ptr s2 = (Returns token, s3) \<and>
                   (r = None \<longleftrightarrow> token = [] \<or> token = ''0000'') \<and>
                   (r \<noteq> None \<longrightarrow> r = Some token)))"
    by (intro exI[of _ ptr] exI[of _ s1] exI[of _ status] exI[of _ s2] conjI)
next
  assume a: "getBestMove_direct d depth t = (Returns r', t')"
  then show i: "isInitialized d"
    by (auto simp: getBestMove_direct_def throw_def split: if_splits)
  with a obtain token where tk: "invoke ''chess_get_best_move'' [Num (depth_or_default depth)] Str
                 (map_option (\<lambda>f. f (depth_or_default depth)) (chess_get_best_move d)) t
                 = (Returns token, t')" and r: "r' = move_or_null token"
    by (auto simp: getBestMove_direct_def bindx_Returns_iff ret_def)
  from r show "r' \<noteq> Some ''0000''" by (simp add: move_or_null_def)
  from tk r show "\<exists>token.
               invoke ''chess_get_best_move'' [Num (depth_or_default depth)] Str
                 (map_option (\<lambda>f. f (depth_or_default depth)) (chess_get_best_move d)) t
                 = (Returns token, t') \<and>
               (r' = None \<longleftrightarrow> token = [] \<or> token = ''0000'') \<and>
               (r' \<noteq> None \<longrightarrow> r' = Some token)"
    by (auto simp: move_or_null_def)
qed

theorem getBestMove_result_witness:
  "getBestMove (wired (demo_module 0 0 ''e7e8q'')) (Some 3) fresh
     = (Returns (Some ''e7e8q''),
        \<lparr>world = ''e7e8q'',
         calls = [Call ''_malloc'' [Num 32] (Returns (Num 1024)),
                  Call ''_chess_get_best_move'' [Num 1024, Num 32, Num 3] (Returns (Num 0)),
                  Call ''_decodeCString'' [Num 1024] (Returns (Str ''e7e8q'')),
                  Call ''_free'' [Num 1024] (Returns Undefined)]\<rparr>) \<and>
   isInitialized (wired (demo_module 0 0 ''e7e8q'')) \<and>
   getBestMove_direct (wired_direct (demo_module_direct 1 ''0000'')) None fresh
     = (Returns None,
        \<lparr>world = [], calls = [Call ''chess_get_best_move'' [Num 4] (Returns (Str ''0000''))]\<rparr>) \<and>
   isInitialized (wired_direct (demo_module_direct 1 ''0000''))"
  using getBestMove_result[where e = "wired (demo_module 0 0 ''e7e8q'')" and depth = "Some 3"
      and s = fresh and r = "Some ''e7e8q''"
      and d = "wired_direct (demo_module_direct 1 ''0000'')" and t = fresh and r' = None]
  by (simp add: getBestMove_def getBestMove_direct_def wired_def wired_direct_def
        demo_module_def demo_module_direct_def fresh_def run_defs)

text \<open>
  The claim as stated fails: with the status \<open>0\<close> and an empty token, which is not
  \<open>0000\<close>, the result is \<open>null\<close>; and a token that is not in the notation (\<open>zz\<close>)
  is returned as it is.
\<close>

theorem getBestMove_counterexample:
  "getBestMove (wired (demo_module 0 0 [])) None fresh
     = (Returns None,
        \<lparr>world = [],
         calls = [Call ''_malloc'' [Num 32] (Returns (Num 1024)),
                  Call ''_chess_get_best_move'' [Num 1024, Num 32, Num 4] (Returns (Num 0)),
                  Call ''_decodeCString'' [Num 1024] (Returns (Str [])),
                  Call ''_free'' [Num 1024] (Returns Undefined)]\<rparr>) \<and>
   [] \<noteq> ''0000'' \<and>
   fst (getBestMove (wired (demo_module 0 0 ''zz'')) None fresh) = Returns (Some ''zz'') \<and>
   \<not> spec_move_token ''zz''"
  by (simp add: getBestMove_def wired_def demo_module_def fresh_def run_defs spec_move_token_def)

subsection \<open>\<open>cleanup\<close> and \<open>init\<close>\<close>

text \<open>
  Claim C6, as the code has it. \<open>cleanup\<close> does nothing unless the state is
  \<open>Initialized\<close>. When a call of \<open>cleanup\<close> returns, a second call right after it
  does nothing and returns: twice is once. From \<open>Initialized\<close>, with the module
  loaded and the teardown wrapper bound, a call that returns has called the native
  teardown once and leaves the state \<open>Loaded_NotInitialized\<close>. \<open>cleanup\<close> has no
  \<open>catch\<close>: it throws exactly when the native teardown does, and then the object is
  unchanged (still \<open>Initialized\<close>).
\<close>

theorem cleanup_twice:
  fixes e :: "('w, 'z) engine_scheme"
  shows "(state_of e \<noteq> Initialized \<longrightarrow> cleanup e s = (Returns (), e, s)) \<and>
         (cleanup e s = (Returns (), e1, s1) \<longrightarrow> cleanup e1 s1 = (Returns (), e1, s1)) \<and>
         (state_of e = Initialized \<and> isReady e \<and> chess_cleanup e \<noteq> None \<and>
          cleanup e s = (Returns (), e1, s1) \<longrightarrow>
            state_of e1 = Loaded_NotInitialized \<and> e1 = e\<lparr>isInitialized := False\<rparr> \<and>
            new_calls s s1 = [Call ''chess_cleanup'' [] (Returns Undefined)]) \<and>
         (cleanup e s = (Throws msg, e2, s2) \<longrightarrow>
            e2 = e \<and> state_of e = Initialized \<and>
            invoke ''chess_cleanup'' [] (\<lambda>_. Undefined) (chess_cleanup e) s = (Throws msg, s2))"
proof (intro conjI impI)
  assume "state_of e \<noteq> Initialized"
  then show "cleanup e s = (Returns (), e, s)"
    by (simp add: state_of_def cleanup_def split: if_splits)
next
  assume "cleanup e s = (Returns (), e1, s1)"
  then show "cleanup e1 s1 = (Returns (), e1, s1)"
    by (auto simp: cleanup_def split: if_splits prod.splits outcome.splits)
next
  assume a: "state_of e = Initialized \<and> isReady e \<and> chess_cleanup e \<noteq> None \<and>
          cleanup e s = (Returns (), e1, s1)"
  then have i: "isInitialized e" by (simp add: state_of_def split: if_splits)
  with a show "state_of e1 = Loaded_NotInitialized"
    by (auto simp: cleanup_def state_of_def split: prod.splits outcome.splits)
  from a i show "e1 = e\<lparr>isInitialized := False\<rparr>"
    by (auto simp: cleanup_def split: prod.splits outcome.splits)
  from a i show "new_calls s s1 = [Call ''chess_cleanup'' [] (Returns Undefined)]"
    by (auto simp: cleanup_def invoke_def new_calls_def split: prod.splits outcome.splits)
next
  assume a: "cleanup e s = (Throws msg, e2, s2)"
  then show "e2 = e"
    by (auto simp: cleanup_def split: if_splits prod.splits outcome.splits)
  from a show "state_of e = Initialized"
    by (auto simp: cleanup_def state_of_def split: if_splits prod.splits outcome.splits)
  from a show "invoke ''chess_cleanup'' [] (\<lambda>_. Undefined) (chess_cleanup e) s = (Throws msg, s2)"
    by (auto simp: cleanup_def split: if_splits prod.splits outcome.splits)
qed

theorem cleanup_twice_witness:
  "state_of (wired (demo_module 0 0 [])) = Initialized \<and>
   isReady (wired (demo_module 0 0 [])) \<and>
   chess_cleanup (wired (demo_module 0 0 [])) \<noteq> None \<and>
   cleanup (wired (demo_module 0 0 [])) fresh
     = (Returns (), (wired (demo_module 0 0 []))\<lparr>isInitialized := False\<rparr>,
        \<lparr>world = [], calls = [Call ''chess_cleanup'' [] (Returns Undefined)]\<rparr>) \<and>
   cleanup ((wired (demo_module 0 0 []))\<lparr>isInitialized := False\<rparr>)
       \<lparr>world = [], calls = [Call ''chess_cleanup'' [] (Returns Undefined)]\<rparr>
     = (Returns (), (wired (demo_module 0 0 []))\<lparr>isInitialized := False\<rparr>,
        \<lparr>world = [], calls = [Call ''chess_cleanup'' [] (Returns Undefined)]\<rparr>) \<and>
   state_of ((wired (demo_module 0 0 []))\<lparr>isInitialized := False\<rparr>) = Loaded_NotInitialized"
  using cleanup_twice[where e = "wired (demo_module 0 0 [])" and s = fresh
      and ?e1.0 = "(wired (demo_module 0 0 []))\<lparr>isInitialized := False\<rparr>"
      and ?s1.0 = "\<lparr>world = [], calls = [Call ''chess_cleanup'' [] (Returns Undefined)]\<rparr>"]
  by (simp add: cleanup_def state_of_def wired_def demo_module_def fresh_def invoke_def)

text \<open>
  The claim as stated fails: a native teardown that traps makes \<open>cleanup\<close> throw, and
  the state after it is still \<open>Initialized\<close>.
\<close>

theorem cleanup_counterexample:
  "state_of ((wired (demo_module 0 0 []))
       \<lparr>chess_cleanup := Some (\<lambda>w. (Throws (Err ''unreachable''), w))\<rparr>) = Initialized \<and>
   fst (cleanup ((wired (demo_module 0 0 []))
       \<lparr>chess_cleanup := Some (\<lambda>w. (Throws (Err ''unreachable''), w))\<rparr>) fresh)
     = Throws (Err ''unreachable'') \<and>
   state_of (fst (snd (cleanup ((wired (demo_module 0 0 []))
       \<lparr>chess_cleanup := Some (\<lambda>w. (Throws (Err ''unreachable''), w))\<rparr>) fresh))) = Initialized"
  by (simp add: cleanup_def state_of_def wired_def demo_module_def fresh_def invoke_def)

text \<open>
  Claim C8. In the state \<open>Loaded_NotInitialized\<close>, when the native \<open>chess_init\<close>
  returns a status that is not the success status (\<open>0\<close> in the buffer generation,
  \<open>1\<close> in the direct-return generation), \<open>init\<close> returns \<open>false\<close> and the object
  is the one it was: the state is still \<open>Loaded_NotInitialized\<close>, not \<open>Initialized\<close>.
\<close>

theorem init_failure_keeps_state:
  fixes e :: "'w buf_engine" and d :: "'w direct_engine"
  shows "(state_of e = Loaded_NotInitialized \<and>
          invoke ''chess_init'' [] Num (chess_init e) s = (Returns status, s1) \<and> status \<noteq> 0 \<longrightarrow>
            init e s = (Returns False, e, s1) \<and>
            state_of (fst (snd (init e s))) = Loaded_NotInitialized) \<and>
         (state_of d = Loaded_NotInitialized \<and>
          invoke ''chess_init'' [] Num (chess_init d) t = (Returns status', t1) \<and> status' \<noteq> 1 \<longrightarrow>
            init_direct d t = (Returns False, d, t1) \<and>
            state_of (fst (snd (init_direct d t))) = Loaded_NotInitialized)"
proof (intro conjI impI)
  assume a: "state_of e = Loaded_NotInitialized \<and>
          invoke ''chess_init'' [] Num (chess_init e) s = (Returns status, s1) \<and> status \<noteq> 0"
  then have "isReady e" by (simp add: state_of_def split: if_splits)
  with a show r: "init e s = (Returns False, e, s1)" by (simp add: init_def)
  with a show "state_of (fst (snd (init e s))) = Loaded_NotInitialized" by simp
next
  assume a: "state_of d = Loaded_NotInitialized \<and>
          invoke ''chess_init'' [] Num (chess_init d) t = (Returns status', t1) \<and> status' \<noteq> 1"
  then have f: "isReady d" "isInitialized d = False" by (simp_all add: state_of_def split: if_splits)
  have "d\<lparr>isInitialized := isInitialized d\<rparr> = d" by simp
  with f have "d\<lparr>isInitialized := False\<rparr> = d" by simp
  with a f show r: "init_direct d t = (Returns False, d, t1)" by (simp add: init_direct_def)
  with a show "state_of (fst (snd (init_direct d t))) = Loaded_NotInitialized" by simp
qed

theorem init_failure_keeps_state_witness:
  "state_of ((wired ((demo_module 0 0 [])\<lparr>c_chess_init := (\<lambda>w. (Returns (- 1), w))\<rparr>))
               \<lparr>isInitialized := False\<rparr>) = Loaded_NotInitialized \<and>
   init ((wired ((demo_module 0 0 [])\<lparr>c_chess_init := (\<lambda>w. (Returns (- 1), w))\<rparr>))
               \<lparr>isInitialized := False\<rparr>) fresh
     = (Returns False,
        (wired ((demo_module 0 0 [])\<lparr>c_chess_init := (\<lambda>w. (Returns (- 1), w))\<rparr>))
               \<lparr>isInitialized := False\<rparr>,
        \<lparr>world = [], calls = [Call ''chess_init'' [] (Returns (Num (- 1)))]\<rparr>) \<and>
   state_of ((wired_direct ((demo_module_direct 1 [])\<lparr>c_chess_init := (\<lambda>w. (Returns 0, w))\<rparr>))
               \<lparr>isInitialized := False\<rparr>) = Loaded_NotInitialized \<and>
   init_direct ((wired_direct ((demo_module_direct 1 [])\<lparr>c_chess_init := (\<lambda>w. (Returns 0, w))\<rparr>))
               \<lparr>isInitialized := False\<rparr>) fresh
     = (Returns False,
        (wired_direct ((demo_module_direct 1 [])\<lparr>c_chess_init := (\<lambda>w. (Returns 0, w))\<rparr>))
               \<lparr>isInitialized := False\<rparr>,
        \<lparr>world = [], calls = [Call ''chess_init'' [] (Returns (Num 0))]\<rparr>)"
  using init_failure_keeps_state[where
      e = "(wired ((demo_module 0 0 [])\<lparr>c_chess_init := (\<lambda>w. (Returns (- 1), w))\<rparr>))
               \<lparr>isInitialized := False\<rparr>"
      and s = fresh and status = "- 1"
      and ?s1.0 = "\<lparr>world = [], calls = [Call ''chess_init'' [] (Returns (Num (- 1)))]\<rparr>"
      and d = "(wired_direct ((demo_module_direct 1 [])\<lparr>c_chess_init := (\<lambda>w. (Returns 0, w))\<rparr>))
               \<lparr>isInitialized := False\<rparr>"
      and t = fresh and status' = 0
      and ?t1.0 = "\<lparr>world = [], calls = [Call ''chess_init'' [] (Returns (Num 0))]\<rparr>"]
  by (simp add: state_of_def wired_def wired_direct_def demo_module_def demo_module_direct_def
        fresh_def invoke_def)

subsection \<open>\<open>getLegalMoves\<close>\<close>

lemma trim_blank:
  assumes "blank s"
  shows "trim s = []"
proof -
  from assms have "\<forall>c\<in>set s. is_space c"
    by (simp add: blank_def list_all_iff)
  then have "dropWhile is_space s = []"
    by (simp only: dropWhile_eq_Nil_conv)
  then show ?thesis by (simp only: trim_def rev.simps dropWhile.simps)
qed

lemma moves_of_payload_filter:
  "moves_of_payload payload = filter (\<lambda>m. m \<noteq> []) (split_ws (trim payload))"
  by (simp add: moves_of_payload_def split_ws_def Let_def)

lemma moves_of_payload_direct_filter:
  "moves_of_payload_direct payload = filter (\<lambda>m. m \<noteq> []) (split_comma payload)"
  by (simp add: moves_of_payload_direct_def split_comma_def)

text \<open>
  Claim C7, as the code has it. When \<open>getLegalMoves\<close> returns, the result holds no
  empty token, so it is never the one-element sequence of the empty token. In the
  buffer generation the result is empty when the native count is negative, and
  otherwise it is the trimmed payload split at the runs of white space with the empty
  pieces filtered out, which is empty for a blank payload. In the direct-return
  generation the result is the payload split at the commas with the empty pieces
  filtered out, which is empty for the empty payload; that generation does not trim.
\<close>

theorem getLegalMoves_result:
  fixes e :: "'w buf_engine" and d :: "'w direct_engine"
  shows "(getLegalMoves e s = (Returns ms, s') \<longrightarrow>
            isInitialized e \<and> [] \<notin> set ms \<and> ms \<noteq> [[]] \<and>
            (\<exists>ptr s1 count s2.
               call_malloc e 4096 s = (Returns ptr, s1) \<and> ptr \<noteq> 0 \<and>
               invoke ''_chess_get_legal_moves'' [Num ptr, Num 4096] Num
                 (map_option (\<lambda>f. f ptr 4096) (p_chess_get_legal_moves e)) s1
                 = (Returns count, s2) \<and>
               (if count < 0 then ms = []
                else (\<exists>payload s3. call_decodeCString e ptr s2 = (Returns payload, s3) \<and>
                        ms = filter (\<lambda>m. m \<noteq> []) (split_ws (trim payload)) \<and>
                        (blank payload \<longrightarrow> ms = []))))) \<and>
         (getLegalMoves_direct d t = (Returns ms', t') \<longrightarrow>
            isInitialized d \<and> [] \<notin> set ms' \<and> ms' \<noteq> [[]] \<and>
            (\<exists>payload.
               invoke ''chess_get_legal_moves'' [] Str (chess_get_legal_moves d) t
                 = (Returns payload, t') \<and>
               ms' = filter (\<lambda>m. m \<noteq> []) (split_comma payload) \<and>
               (payload = [] \<longrightarrow> ms' = [])))"
proof (intro conjI impI)
  assume a: "getLegalMoves e s = (Returns ms, s')"
  then show i: "isInitialized e"
    by (auto simp: getLegalMoves_def throw_def split: if_splits)
  with a obtain ptr s1 where m: "call_malloc e 4096 s = (Returns ptr, s1)"
    and rest: "(if ptr = 0 then throw (Err ''Failed to allocate memory for legal moves buffer'')
        else try_finally
          (bindx (invoke ''_chess_get_legal_moves'' [Num ptr, Num 4096] Num
                    (map_option (\<lambda>f. f ptr 4096) (p_chess_get_legal_moves e)))
             (\<lambda>count.
                if count < 0 then ret []
                else bindx (call_decodeCString e ptr)
                       (\<lambda>payload. ret (moves_of_payload payload))))
          (call_free e ptr)) s1 = (Returns ms, s')"
    by (auto simp: getLegalMoves_def bindx_Returns_iff)
  from rest have nz: "ptr \<noteq> 0" by (auto simp: throw_def split: if_splits)
  with rest obtain sb where body: "bindx (invoke ''_chess_get_legal_moves'' [Num ptr, Num 4096] Num
                    (map_option (\<lambda>f. f ptr 4096) (p_chess_get_legal_moves e)))
             (\<lambda>count.
                if count < 0 then ret []
                else bindx (call_decodeCString e ptr)
                       (\<lambda>payload. ret (moves_of_payload payload))) s1
              = (Returns ms, sb)"
    by (auto simp: try_finally_Returns_iff)
  then obtain count s2 where st: "invoke ''_chess_get_legal_moves'' [Num ptr, Num 4096] Num
                    (map_option (\<lambda>f. f ptr 4096) (p_chess_get_legal_moves e)) s1
                  = (Returns count, s2)"
    and k: "(if count < 0 then ret []
                else bindx (call_decodeCString e ptr)
                       (\<lambda>payload. ret (moves_of_payload payload))) s2
             = (Returns ms, sb)"
    unfolding bindx_Returns_iff by blast
  have tail: "if count < 0 then ms = []
       else (\<exists>payload s3. call_decodeCString e ptr s2 = (Returns payload, s3) \<and>
               ms = filter (\<lambda>m. m \<noteq> []) (split_ws (trim payload)) \<and>
               (blank payload \<longrightarrow> ms = []))"
  proof (cases "count < 0")
    case True
    with k show ?thesis by (simp add: ret_def)
  next
    case False
    with k obtain payload s3 where dc: "call_decodeCString e ptr s2 = (Returns payload, s3)"
      and r: "ms = moves_of_payload payload"
      by (auto simp: bindx_Returns_iff ret_def)
    have "blank payload \<longrightarrow> ms = []"
      using r by (simp add: moves_of_payload_def trim_blank)
    with dc r False show ?thesis by (auto simp: moves_of_payload_filter)
  qed
  then show e1: "[] \<notin> set ms" by (auto split: if_splits)
  then show "ms \<noteq> [[]]" by auto
  from m nz st tail
  show "\<exists>ptr s1 count s2.
          call_malloc e 4096 s = (Returns ptr, s1) \<and> ptr \<noteq> 0 \<and>
          invoke ''_chess_get_legal_moves'' [Num ptr, Num 4096] Num
            (map_option (\<lambda>f. f ptr 4096) (p_chess_get_legal_moves e)) s1
            = (Returns count, s2) \<and>
          (if count < 0 then ms = []
           else (\<exists>payload s3. call_decodeCString e ptr s2 = (Returns payload, s3) \<and>
                   ms = filter (\<lambda>m. m \<noteq> []) (split_ws (trim payload)) \<and>
                   (blank payload \<longrightarrow> ms = [])))"
    by (intro exI[of _ ptr] exI[of _ s1] exI[of _ count] exI[of _ s2] conjI)
next
  assume a: "getLegalMoves_direct d t = (Returns ms', t')"
  then show i: "isInitialized d"
    by (auto simp: getLegalMoves_direct_def throw_def split: if_splits)
  with a obtain payload where tk: "invoke ''chess_get_legal_moves'' [] Str
      (chess_get_legal_moves d) t = (Returns payload, t')"
    and r: "ms' = moves_of_payload_direct payload"
    by (auto simp: getLegalMoves_direct_def bindx_Returns_iff ret_def)
  from r show e1: "[] \<notin> set ms'" by (simp add: moves_of_payload_direct_filter)
  then show "ms' \<noteq> [[]]" by auto
  from tk r show "\<exists>payload.
               invoke ''chess_get_legal_moves'' [] Str (chess_get_legal_moves d) t
                 = (Returns payload, t') \<and>
               ms' = filter (\<lambda>m. m \<noteq> []) (split_comma payload) \<and>
               (payload = [] \<longrightarrow> ms' = [])"
    by (auto simp: moves_of_payload_direct_filter split_comma_def)
qed

theorem getLegalMoves_result_witness:
  "getLegalMoves (wired (demo_module 0 0 ''  '')) fresh
     = (Returns [],
        \<lparr>world = ''  '',
         calls = [Call ''_malloc'' [Num 4096] (Returns (Num 1024)),
                  Call ''_chess_get_legal_moves'' [Num 1024, Num 4096] (Returns (Num 0)),
                  Call ''_decodeCString'' [Num 1024] (Returns (Str ''  '')),
                  Call ''_free'' [Num 1024] (Returns Undefined)]\<rparr>) \<and>
   blank ''  '' \<and>
   fst (getLegalMoves (wired (demo_module 0 2 '' e2e4  e2e3 '')) fresh)
     = Returns [''e2e4'', ''e2e3''] \<and>
   fst (getLegalMoves (wired (demo_module 0 (- 1) ''e2e4'')) fresh) = Returns [] \<and>
   getLegalMoves_direct (wired_direct (demo_module_direct 1 ''e2e4,,e2e3,'')) fresh
     = (Returns [''e2e4'', ''e2e3''],
        \<lparr>world = [],
         calls = [Call ''chess_get_legal_moves'' [] (Returns (Str ''e2e4,,e2e3,''))]\<rparr>) \<and>
   fst (getLegalMoves_direct (wired_direct (demo_module_direct 1 [])) fresh) = Returns []"
  using getLegalMoves_result[where e = "wired (demo_module 0 0 ''  '')" and s = fresh and ms = "[]"
      and d = "wired_direct (demo_module_direct 1 ''e2e4,,e2e3,'')" and t = fresh
      and ms' = "[''e2e4'', ''e2e3'']"]
  by (simp add: getLegalMoves_def getLegalMoves_direct_def wired_def wired_direct_def
        demo_module_def demo_module_direct_def fresh_def run_defs moves_of_payload_def
        moves_of_payload_direct_def trim_def split_ws_def split_comma_def is_space_def blank_def)

text \<open>
  The claim as stated fails in the direct-return generation: a payload of one space
  is blank, and the result is the one-element sequence holding that space.
\<close>

theorem getLegalMoves_counterexample:
  "blank '' '' \<and>
   getLegalMoves_direct (wired_direct (demo_module_direct 1 '' '')) fresh
     = (Returns ['' ''],
        \<lparr>world = [], calls = [Call ''chess_get_legal_moves'' [] (Returns (Str '' ''))]\<rparr>)"
  by (simp add: getLegalMoves_direct_def wired_direct_def demo_module_direct_def fresh_def
        run_defs moves_of_payload_direct_def split_comma_def is_space_def blank_def)

subsection \<open>\<open>loadModule\<close>\<close>

lemma unloaded_rejects_all:
  assumes "\<not> isReady e" "\<not> isInitialized e"
  shows "rejects_all e s fen depth move"
  using assms
  by (simp add: rejects_all_def init_def cleanup_def setPosition_def getBestMove_def makeMove_def
        undoMove_def getLegalMoves_def isCheckmate_def isStalemate_def isInCheck_def
        evaluatePosition_def getCurrentFen_def analyzePosition_def analysis_try_def
        report_caught_def message_of_def lift_def
        throw_def try_catch_def bindx_def ret_def)

lemma unloaded_rejects_all_direct:
  assumes "\<not> isReady e" "\<not> isInitialized e"
  shows "rejects_all_direct e s fen depth move"
  using assms
  by (simp add: rejects_all_direct_def init_direct_def cleanup_def setPosition_direct_def
        getBestMove_direct_def makeMove_direct_def
        undoMove_direct_def getLegalMoves_direct_def isCheckmate_def isStalemate_def
        isInCheck_def evaluatePosition_def getCurrentFen_direct_def analyzePosition_direct_def
        analysis_try_direct_def report_caught_def message_of_def lift_def
        throw_def try_catch_def bindx_def ret_def)

lemma bind_wrappers_keeps:
  assumes "\<And>n f x. (n, f) \<in> set steps \<Longrightarrow> P (f x) = P x"
  shows "P (snd (bind_wrappers ct steps e)) = P e"
  using assms
proof (induction steps arbitrary: e)
  case Nil
  show ?case by simp
next
  case (Cons a steps)
  obtain n f where a: "a = (n, f)" by (cases a)
  show ?case
  proof (cases "ct n")
    case None
    have "P (snd (bind_wrappers ct steps (f e))) = P (f e)"
    proof (rule Cons.IH)
      fix n' f' x
      assume "(n', f') \<in> set steps"
      then show "P (f' x) = P x" using Cons.prems[of n' f' x] by simp
    qed
    moreover have "P (f e) = P e" using Cons.prems[of n f e] a by simp
    ultimately show ?thesis using None a by simp
  next
    case (Some msg)
    with a show ?thesis by simp
  qed
qed

lemma setup_keeps:
  assumes P: "P = isReady \<or> P = isInitialized"
  shows "P (snd (setupFunctionWrappers e)) = P e"
proof (cases "module e")
  case None
  then show ?thesis by (simp add: setupFunctionWrappers_def)
next
  case (Some m)
  let ?steps = "[(''chess_init'', \<lambda>x. x\<lparr>chess_init := Some (c_chess_init m)\<rparr>),
             (''chess_cleanup'', \<lambda>x. x\<lparr>chess_cleanup := Some (c_chess_cleanup m)\<rparr>),
             (''chess_set_position'',
                \<lambda>x. x\<lparr>chess_set_position := Some (c_chess_set_position m)\<rparr>),
             (''chess_get_fen'', \<lambda>x. x\<lparr>p_chess_get_fen := Some (b_chess_get_fen m)\<rparr>),
             (''chess_get_best_move'',
                \<lambda>x. x\<lparr>p_chess_get_best_move := Some (b_chess_get_best_move m)\<rparr>),
             (''chess_make_move'', \<lambda>x. x\<lparr>chess_make_move := Some (c_chess_make_move m)\<rparr>),
             (''chess_undo_move'', \<lambda>x. x\<lparr>chess_undo_move := Some (c_chess_undo_move m)\<rparr>),
             (''chess_get_legal_moves'',
                \<lambda>x. x\<lparr>p_chess_get_legal_moves := Some (b_chess_get_legal_moves m)\<rparr>),
             (''chess_is_checkmate'',
                \<lambda>x. x\<lparr>chess_is_checkmate := Some (c_chess_is_checkmate m)\<rparr>),
             (''chess_is_stalemate'',
                \<lambda>x. x\<lparr>chess_is_stalemate := Some (c_chess_is_stalemate m)\<rparr>),
             (''chess_is_in_check'',
                \<lambda>x. x\<lparr>chess_is_in_check := Some (c_chess_is_in_check m)\<rparr>),
             (''chess_evaluate_position'',
                \<lambda>x. x\<lparr>chess_evaluate_position := Some (c_chess_evaluate_position m)\<rparr>)]
           :: (string \<times> ('a buf_engine \<Rightarrow> 'a buf_engine)) list"
  have k: "P (snd (bind_wrappers (cwrap_throws m) ?steps e)) = P e"
    by (rule bind_wrappers_keeps) (use P in auto)
  obtain r e1 where b: "bind_wrappers (cwrap_throws m) ?steps e = (r, e1)"
    by (cases "bind_wrappers (cwrap_throws m) ?steps e")
  with k have "P e1 = P e" by simp
  with Some b P show ?thesis
    by (cases r) (auto simp: setupFunctionWrappers_def bindx_def Let_def)
qed

lemma setup_direct_keeps:
  assumes P: "P = isReady \<or> P = isInitialized"
  shows "P (snd (setupFunctionWrappers_direct e)) = P e"
proof (cases "module_direct e")
  case None
  then show ?thesis by (simp add: setupFunctionWrappers_direct_def)
next
  case (Some m)
  show ?thesis
    unfolding setupFunctionWrappers_direct_def Some option.case
    by (rule bind_wrappers_keeps) (use P in auto)
qed

text \<open>What the three loaders share after the module has been fetched.\<close>

lemma load_tail:
  assumes keeps: "\<And>P x. P = isReady \<or> P = isInitialized \<Longrightarrow> P (snd (setup x)) = P x"
    and put: "isReady (put e) = isReady e" "isInitialized (put e) = isInitialized e"
  shows "\<exists>ok e'. try_catch (bindx setup (\<lambda>_ e2. (Returns True, e2\<lparr>isReady := True\<rparr>)))
                     (\<lambda>error. ret False) (put e) = (Returns ok, e') \<and>
            (ok \<longleftrightarrow> fst (setup (put e)) = Returns ()) \<and>
            (\<not> ok \<longrightarrow> e' = snd (setup (put e)) \<and>
                       isReady e' = isReady e \<and> isInitialized e' = isInitialized e)"
proof -
  obtain r e2 where s: "setup (put e) = (r, e2)" by (cases "setup (put e)")
  have "isReady e2 = isReady e" "isInitialized e2 = isInitialized e"
    using keeps[of isReady "put e"] keeps[of isInitialized "put e"] s put by simp_all
  with s show ?thesis
    by (cases r) (auto simp: try_catch_def bindx_def ret_def)
qed

text \<open>
  Claim C9. \<open>loadModule\<close> of each of the three classes never throws: it returns
  \<open>true\<close> or \<open>false\<close>, and \<open>true\<close> exactly when the module was obtained and
  \<open>setupFunctionWrappers\<close> ran to its end. When it returns \<open>false\<close> (the script or the
  import failed, the symbol \<open>ChessEngine\<close> is missing, the factory rejected, a
  wrapper could not be made), \<open>isReady\<close> and \<open>isInitialized\<close> are what they were; from
  the state \<open>Unloaded\<close> the state is still \<open>Unloaded\<close> and no wrapper can be reached
  through the methods, although fields assigned before the failure keep their values.
\<close>

theorem loadModule_failure:
  fixes e :: "'w buf_engine" and d :: "'w direct_engine"
  shows "(\<exists>ok e'. loadModule h baseUrl e = (Returns ok, e') \<and>
            (\<not> ok \<longrightarrow> isReady e' = isReady e \<and> isInitialized e' = isInitialized e \<and>
                       state_of e' = state_of e) \<and>
            (\<not> ok \<and> state_of e = Unloaded \<longrightarrow>
               state_of e' = Unloaded \<and> rejects_all e' s fen depth move) \<and>
            (ok \<longleftrightarrow> (\<exists>m. fetch_module h baseUrl = Returns m \<and>
                          fst (setupFunctionWrappers (e\<lparr>module := Some m\<rparr>)) = Returns ()))) \<and>
         (\<exists>ok d'. loadModule_script_direct hs baseUrl d = (Returns ok, d') \<and>
            (\<not> ok \<longrightarrow> isReady d' = isReady d \<and> isInitialized d' = isInitialized d \<and>
                       state_of d' = state_of d) \<and>
            (\<not> ok \<and> state_of d = Unloaded \<longrightarrow>
               state_of d' = Unloaded \<and> rejects_all_direct d' s fen depth move) \<and>
            (ok \<longleftrightarrow> (\<exists>m. fetch_module hs baseUrl = Returns m \<and>
                          fst (setupFunctionWrappers_direct (d\<lparr>module_direct := Some m\<rparr>))
                            = Returns ()))) \<and>
         (\<exists>ok d'. loadModule_direct hi wasmPath jsPath d = (Returns ok, d') \<and>
            (\<not> ok \<longrightarrow> isReady d' = isReady d \<and> isInitialized d' = isInitialized d \<and>
                       state_of d' = state_of d) \<and>
            (\<not> ok \<and> state_of d = Unloaded \<longrightarrow>
               state_of d' = Unloaded \<and> rejects_all_direct d' s fen depth move) \<and>
            (ok \<longleftrightarrow> (\<exists>m. import_js hi jsPath = Returns (Some (Returns m)) \<and>
                          fst (setupFunctionWrappers_direct (d\<lparr>module_direct := Some m\<rparr>))
                            = Returns ())))"
proof (intro conjI)
  have flags: "isReady e' = isReady e \<and> isInitialized e' = isInitialized e \<Longrightarrow>
      state_of e' = state_of e \<and>
      (state_of e = Unloaded \<longrightarrow> state_of e' = Unloaded \<and> rejects_all e' s fen depth move)"
    for e' :: "'w buf_engine"
    using unloaded_rejects_all[of e' s fen depth move]
    by (auto simp: state_of_def split: if_splits)
  show "\<exists>ok e'. loadModule h baseUrl e = (Returns ok, e') \<and>
            (\<not> ok \<longrightarrow> isReady e' = isReady e \<and> isInitialized e' = isInitialized e \<and>
                       state_of e' = state_of e) \<and>
            (\<not> ok \<and> state_of e = Unloaded \<longrightarrow>
               state_of e' = Unloaded \<and> rejects_all e' s fen depth move) \<and>
            (ok \<longleftrightarrow> (\<exists>m. fetch_module h baseUrl = Returns m \<and>
                          fst (setupFunctionWrappers (e\<lparr>module := Some m\<rparr>)) = Returns ()))"
  proof (cases "fetch_module h baseUrl")
    case (Throws msg)
    then have "loadModule h baseUrl e = (Returns False, e)"
      by (simp add: loadModule_def try_catch_def bindx_def lift_def ret_def)
    with Throws flags[of e] show ?thesis by auto
  next
    case (Returns m)
    from load_tail[of setupFunctionWrappers "\<lambda>x. x\<lparr>module := Some m\<rparr>" e, OF setup_keeps]
    obtain ok e' where
      t: "try_catch (bindx setupFunctionWrappers (\<lambda>_ e2. (Returns True, e2\<lparr>isReady := True\<rparr>)))
            (\<lambda>error. ret False) (e\<lparr>module := Some m\<rparr>) = (Returns ok, e')"
      and ok: "ok \<longleftrightarrow> fst (setupFunctionWrappers (e\<lparr>module := Some m\<rparr>)) = Returns ()"
      and no: "\<not> ok \<longrightarrow> isReady e' = isReady e \<and> isInitialized e' = isInitialized e"
      by auto
    from t Returns have "loadModule h baseUrl e = (Returns ok, e')"
      by (auto simp: loadModule_def try_catch_def bindx_def lift_def ret_def
               split: prod.splits outcome.splits)
    with Returns ok no flags[of e'] show ?thesis by auto
  qed
next
  have flags: "isReady d' = isReady d \<and> isInitialized d' = isInitialized d \<Longrightarrow>
      state_of d' = state_of d \<and>
      (state_of d = Unloaded \<longrightarrow> state_of d' = Unloaded \<and> rejects_all_direct d' s fen depth move)"
    for d' :: "'w direct_engine"
    using unloaded_rejects_all_direct[of d' s fen depth move]
    by (auto simp: state_of_def split: if_splits)
  show "\<exists>ok d'. loadModule_script_direct hs baseUrl d = (Returns ok, d') \<and>
            (\<not> ok \<longrightarrow> isReady d' = isReady d \<and> isInitialized d' = isInitialized d \<and>
                       state_of d' = state_of d) \<and>
            (\<not> ok \<and> state_of d = Unloaded \<longrightarrow>
               state_of d' = Unloaded \<and> rejects_all_direct d' s fen depth move) \<and>
            (ok \<longleftrightarrow> (\<exists>m. fetch_module hs baseUrl = Returns m \<and>
                          fst (setupFunctionWrappers_direct (d\<lparr>module_direct := Some m\<rparr>))
                            = Returns ()))"
  proof (cases "fetch_module hs baseUrl")
    case (Throws msg)
    then have "loadModule_script_direct hs baseUrl d = (Returns False, d)"
      by (simp add: loadModule_script_direct_def try_catch_def bindx_def lift_def ret_def)
    with Throws flags[of d] show ?thesis by auto
  next
    case (Returns m)
    from load_tail[of setupFunctionWrappers_direct "\<lambda>x. x\<lparr>module_direct := Some m\<rparr>" d,
        OF setup_direct_keeps]
    obtain ok d' where
      t: "try_catch (bindx setupFunctionWrappers_direct
              (\<lambda>_ e2. (Returns True, e2\<lparr>isReady := True\<rparr>)))
            (\<lambda>error. ret False) (d\<lparr>module_direct := Some m\<rparr>) = (Returns ok, d')"
      and ok: "ok \<longleftrightarrow> fst (setupFunctionWrappers_direct (d\<lparr>module_direct := Some m\<rparr>)) = Returns ()"
      and no: "\<not> ok \<longrightarrow> isReady d' = isReady d \<and> isInitialized d' = isInitialized d"
      by auto
    from t Returns have "loadModule_script_direct hs baseUrl d = (Returns ok, d')"
      by (auto simp: loadModule_script_direct_def try_catch_def bindx_def lift_def ret_def
               split: prod.splits outcome.splits)
    with Returns ok no flags[of d'] show ?thesis by auto
  qed
  show "\<exists>ok d'. loadModule_direct hi wasmPath jsPath d = (Returns ok, d') \<and>
            (\<not> ok \<longrightarrow> isReady d' = isReady d \<and> isInitialized d' = isInitialized d \<and>
                       state_of d' = state_of d) \<and>
            (\<not> ok \<and> state_of d = Unloaded \<longrightarrow>
               state_of d' = Unloaded \<and> rejects_all_direct d' s fen depth move) \<and>
            (ok \<longleftrightarrow> (\<exists>m. import_js hi jsPath = Returns (Some (Returns m)) \<and>
                          fst (setupFunctionWrappers_direct (d\<lparr>module_direct := Some m\<rparr>))
                            = Returns ()))"
  proof (cases "\<exists>m. import_js hi jsPath = Returns (Some (Returns m))")
    case False
    then have "loadModule_direct hi wasmPath jsPath d = (Returns False, d)"
      by (auto simp: loadModule_direct_def try_catch_def bindx_def lift_def ret_def throw_def
               split: outcome.splits option.splits)
    with False flags[of d] show ?thesis by auto
  next
    case True
    then obtain m where m: "import_js hi jsPath = Returns (Some (Returns m))" by blast
    from load_tail[of setupFunctionWrappers_direct "\<lambda>x. x\<lparr>module_direct := Some m\<rparr>" d,
        OF setup_direct_keeps]
    obtain ok d' where
      t: "try_catch (bindx setupFunctionWrappers_direct
              (\<lambda>_ e2. (Returns True, e2\<lparr>isReady := True\<rparr>)))
            (\<lambda>error. ret False) (d\<lparr>module_direct := Some m\<rparr>) = (Returns ok, d')"
      and ok: "ok \<longleftrightarrow> fst (setupFunctionWrappers_direct (d\<lparr>module_direct := Some m\<rparr>)) = Returns ()"
      and no: "\<not> ok \<longrightarrow> isReady d' = isReady d \<and> isInitialized d' = isInitialized d"
      by auto
    from t m have "loadModule_direct hi wasmPath jsPath d = (Returns ok, d')"
      by (auto simp: loadModule_direct_def try_catch_def bindx_def lift_def ret_def
               split: prod.splits outcome.splits)
    with m ok no flags[of d'] show ?thesis by auto
  qed
qed

text \<open>
  A module without \<open>_free\<close>: the twelve wrappers and \<open>_malloc\<close> have been assigned
  when \<open>setupFunctionWrappers\<close> throws, and the object is still \<open>Unloaded\<close>.
\<close>

lemma demo_load_lacking_free:
  "loadModule (demo_host ((demo_module 0 0 [])\<lparr>m_free := None\<rparr>)) None
      (constructor :: string buf_engine)
   = (Returns False,
      (wired ((demo_module 0 0 [])\<lparr>m_free := None\<rparr>))
        \<lparr>isReady := False, isInitialized := False, p_decodeCString := None\<rparr>)"
  by (simp add: loadModule_def try_catch_def bindx_def lift_def fetch_module_def demo_host_def
        setupFunctionWrappers_def constructor_def wired_def ret_def Let_def demo_module_def)

theorem loadModule_failure_witness:
  "state_of (constructor :: string buf_engine) = Unloaded \<and>
   loadModule offline_host None (constructor :: string buf_engine) = (Returns False, constructor) \<and>
   loadModule (demo_host ((demo_module 0 0 [])\<lparr>m_free := None\<rparr>)) None
      (constructor :: string buf_engine)
   = (Returns False,
      (wired ((demo_module 0 0 [])\<lparr>m_free := None\<rparr>))
        \<lparr>isReady := False, isInitialized := False, p_decodeCString := None\<rparr>) \<and>
   state_of ((wired ((demo_module 0 0 [])\<lparr>m_free := None\<rparr>))
        \<lparr>isReady := False, isInitialized := False, p_decodeCString := None\<rparr>) = Unloaded \<and>
   rejects_all ((wired ((demo_module 0 0 [])\<lparr>m_free := None\<rparr>))
        \<lparr>isReady := False, isInitialized := False, p_decodeCString := None\<rparr>)
     fresh ''8/8/8/8/8/8/8/8 w - - 0 1'' None ''e2e4'' \<and>
   state_of (constructor_direct :: string direct_engine) = Unloaded \<and>
   loadModule_script_direct offline_host None (constructor_direct :: string direct_engine)
     = (Returns False, constructor_direct) \<and>
   loadModule_direct offline_import_host ''chess_wasm.wasm'' ''chess_wasm.js''
       (constructor_direct :: string direct_engine)
     = (Returns False, constructor_direct) \<and>
   rejects_all_direct (constructor_direct :: string direct_engine)
     fresh ''8/8/8/8/8/8/8/8 w - - 0 1'' None ''e2e4''"
proof -
  let ?h = "demo_host ((demo_module 0 0 [])\<lparr>m_free := None\<rparr>)"
  let ?c = "constructor :: string buf_engine"
  let ?e = "(wired ((demo_module 0 0 [])\<lparr>m_free := None\<rparr>))
        \<lparr>isReady := False, isInitialized := False, p_decodeCString := None\<rparr>"
  let ?fen = "''8/8/8/8/8/8/8/8 w - - 0 1''"
  have u: "state_of ?c = Unloaded"
    by (simp add: state_of_def constructor_def)
  have l: "loadModule ?h None ?c = (Returns False, ?e)"
    by (rule demo_load_lacking_free)
  from loadModule_failure[where h = ?h and baseUrl = None and e = ?c and s = fresh
      and fen = ?fen and depth = None and move = "''e2e4''"]
  obtain ok e' where "loadModule ?h None ?c = (Returns ok, e')"
    and "\<not> ok \<and> state_of ?c = Unloaded \<longrightarrow>
           state_of e' = Unloaded \<and> rejects_all e' fresh ?fen None ''e2e4''"
    by blast
  with l u have r: "state_of ?e = Unloaded \<and> rejects_all ?e fresh ?fen None ''e2e4''"
    by simp
  have o: "loadModule offline_host None ?c = (Returns False, ?c)"
    by (simp add: loadModule_def offline_host_def fetch_module_def
          try_catch_def bindx_def lift_def ret_def Let_def)
  have ud: "state_of (constructor_direct :: string direct_engine) = Unloaded"
    by (simp add: state_of_def constructor_direct_def)
  have od: "loadModule_script_direct offline_host None (constructor_direct :: string direct_engine)
     = (Returns False, constructor_direct)"
    by (simp add: loadModule_script_direct_def offline_host_def fetch_module_def
          try_catch_def bindx_def lift_def ret_def Let_def)
  have oi: "loadModule_direct offline_import_host ''chess_wasm.wasm'' ''chess_wasm.js''
       (constructor_direct :: string direct_engine) = (Returns False, constructor_direct)"
    by (simp add: loadModule_direct_def offline_import_host_def
          try_catch_def bindx_def lift_def ret_def)
  have rd: "rejects_all_direct (constructor_direct :: string direct_engine)
     fresh ?fen None ''e2e4''"
    by (rule unloaded_rejects_all_direct) (simp_all add: constructor_direct_def)
  from u o l r ud od oi rd show ?thesis by (intro conjI) simp_all
qed

text \<open>A successful load gives the wired object, not yet initialized.\<close>

lemma demo_load_succeeds:
  "loadModule (demo_host (demo_module 0 0 [])) None (constructor :: string buf_engine)
   = (Returns True, (wired (demo_module 0 0 []))\<lparr>isInitialized := False\<rparr>)"
  by (simp add: loadModule_def try_catch_def bindx_def lift_def fetch_module_def demo_host_def
        setupFunctionWrappers_def constructor_def wired_def ret_def Let_def demo_module_def)

end
